theory Spec2Isabelle
  imports Complex_Main "HOL-Library.AList"
begin

section \<open>ADMET scoring: the rank function, the scorer and the consensus aggregation\<close>

text \<open>
  The development embeds \<^verbatim>\<open>Main_functions/ranker.py\<close> (\<^verbatim>\<open>rank_n\<close>,
  \<^verbatim>\<open>calcular_puntaje_admet\<close> with its inner \<^verbatim>\<open>add_score\<close>) and
  \<^verbatim>\<open>Main_functions/consensus_by_class.py\<close> (\<^verbatim>\<open>consensus_score\<close>).

  Modelling decisions:
  \<^item> Python floats are real numbers: sums and products are exact, and there is no NaN and
    no infinity. Decimal literals such as \<open>0.67\<close> denote the rational they spell.
  \<^item> A value stored in a row is a number, a string or a list of strings; an absent key and
    a stored \<^verbatim>\<open>None\<close> are both \<open>None\<close>.
  \<^item> Dictionaries (the weight table, the breakdown) and the row are association lists;
    \<open>map_of\<close> is the lookup, \<open>AList.update\<close> the assignment \<^verbatim>\<open>d[k] = v\<close>.
  \<^item> An exception is a value \<open>Inl e\<close>; a comparison of a string or a list with a number
    raises \<^verbatim>\<open>TypeError\<close>, as Python 3 does.
  \<^item> The parameter \<^verbatim>\<open>verbose\<close> only prints and is left out.
\<close>

subsection \<open>Values, rows, weights\<close>

datatype pyval = Num real | Str string | StrList "string list"

datatype error = TypeError | ValueError | IndexError

type_synonym row = "(string \<times> pyval) list"

type_synonym weights = "(string \<times> real) list"

text \<open>\<^verbatim>\<open>row.get(k)\<close> and \<^verbatim>\<open>row.get(k, default)\<close>.\<close>

definition row_get :: "row \<Rightarrow> string \<Rightarrow> pyval option" where
  "row_get row k = map_of row k"

definition row_get_default :: "row \<Rightarrow> string \<Rightarrow> pyval option \<Rightarrow> pyval option" where
  "row_get_default row k d = (case map_of row k of Some v \<Rightarrow> Some v | None \<Rightarrow> d)"

text \<open>Python truthiness, and \<^verbatim>\<open>a or b\<close>, which yields \<open>a\<close> when \<open>a\<close> is truthy and \<open>b\<close> otherwise.\<close>

fun truthy :: "pyval option \<Rightarrow> bool" where
  "truthy None = False"
| "truthy (Some (Num x)) = (x \<noteq> 0)"
| "truthy (Some (Str s)) = (s \<noteq> [])"
| "truthy (Some (StrList l)) = (l \<noteq> [])"

definition py_or :: "pyval option \<Rightarrow> pyval option \<Rightarrow> pyval option" where
  "py_or a b = (if truthy a then a else b)"

text \<open>\<^verbatim>\<open>pesos.get(key, 0.0)\<close>.\<close>

definition pesos_get :: "weights \<Rightarrow> string \<Rightarrow> real" where
  "pesos_get pesos key = (case map_of pesos key of Some p \<Rightarrow> p | None \<Rightarrow> 0)"

subsection \<open>Comparisons that may raise\<close>

fun py_le :: "pyval \<Rightarrow> real \<Rightarrow> error + bool" where
  "py_le (Num x) t = Inr (x \<le> t)"
| "py_le _ t = Inl TypeError"

fun py_ge :: "pyval \<Rightarrow> real \<Rightarrow> error + bool" where
  "py_ge (Num x) t = Inr (x \<ge> t)"
| "py_ge _ t = Inl TypeError"

fun py_gt :: "pyval \<Rightarrow> real \<Rightarrow> error + bool" where
  "py_gt (Num x) t = Inr (x > t)"
| "py_gt _ t = Inl TypeError"

text \<open>\<^verbatim>\<open>lo <= v <= hi\<close> and \<^verbatim>\<open>v >= lo and v <= hi\<close>: the second comparison is evaluated
  only when the first holds.\<close>

definition py_between :: "real \<Rightarrow> pyval \<Rightarrow> real \<Rightarrow> error + bool" where
  "py_between lo v hi =
     (case py_ge v lo of Inl e \<Rightarrow> Inl e | Inr b \<Rightarrow> if b then py_le v hi else Inr False)"

text \<open>\<^verbatim>\<open>v == 'No'\<close> never raises.\<close>

definition py_eq_str :: "pyval \<Rightarrow> string \<Rightarrow> bool" where
  "py_eq_str v s = (v = Str s)"

text \<open>\<^verbatim>\<open>(isinstance(v, list) and v == ['-']) or str(v) == "['-']"\<close>.\<close>

definition dash_repr :: string where
  "dash_repr = [CHR ''['', CHR 0x27, CHR ''-'', CHR 0x27, CHR '']'']"

definition is_dash :: "pyval \<Rightarrow> bool" where
  "is_dash v = (v = StrList [''-''] \<or> v = Str dash_repr)"

text \<open>\<^verbatim>\<open>if c: t else: e\<close> where evaluating the condition \<open>c\<close> may raise.\<close>

definition cond :: "error + bool \<Rightarrow> error + 'a \<Rightarrow> error + 'a \<Rightarrow> error + 'a" where
  "cond c t e = (case c of Inl x \<Rightarrow> Inl x | Inr b \<Rightarrow> if b then t else e)"

subsection \<open>The rank function\<close>

definition rank_n :: "pyval option \<Rightarrow> real \<Rightarrow> real \<Rightarrow> real \<Rightarrow> real \<Rightarrow> error + real" where
  "rank_n variable peso n_threshold best_threshold middle_threshold =
     (case variable of
        None \<Rightarrow> Inr 0
      | Some v \<Rightarrow>
          if n_threshold = 3 then
            cond (py_le v best_threshold) (Inr (peso * 1))
              (cond (py_le v middle_threshold) (Inr (peso * 0.5)) (Inr (peso * 0.3)))
          else if n_threshold = 2 then
            cond (py_le v best_threshold) (Inr (peso * 1))
              (cond (py_le v middle_threshold) (Inr (peso * 0.5)) (Inr 0))
          else if n_threshold = 1.5 then
            cond (py_le v best_threshold) (Inr (peso * 1)) (Inr (peso * 0.5))
          else if n_threshold = 1 then
            cond (py_le v best_threshold) (Inr (peso * 1)) (Inr 0)
          else Inr 0)"

subsection \<open>The accumulators and the inner function \<^verbatim>\<open>add_score\<close>\<close>

record acc =
  score :: real
  max_score :: real
  breakdown :: "(string \<times> real) list"

definition acc0 :: acc where
  "acc0 = \<lparr>score = 0, max_score = 0, breakdown = []\<rparr>"

text \<open>\<^verbatim>\<open>score += contrib; max_score += peso; breakdown[key] = contrib\<close>.\<close>

definition record_contrib :: "string \<Rightarrow> real \<Rightarrow> real \<Rightarrow> acc \<Rightarrow> acc" where
  "record_contrib key contrib peso a =
     \<lparr>score = score a + contrib, max_score = max_score a + peso,
      breakdown = AList.update key contrib (breakdown a)\<rparr>"

type_synonym step = "acc \<Rightarrow> error + acc"

definition add_score ::
  "weights \<Rightarrow> string \<Rightarrow> pyval option \<Rightarrow> bool \<Rightarrow> real \<Rightarrow> real \<Rightarrow> real \<Rightarrow> step" where
  "add_score pesos key value use_rank n_threshold best_threshold middle_threshold a =
     (let peso = pesos_get pesos key in
      if peso = 0 \<or> value = None then Inr a
      else
        (case (if use_rank then rank_n value peso n_threshold best_threshold middle_threshold
               else Inr peso) of
           Inl e \<Rightarrow> Inl e
         | Inr contrib \<Rightarrow> Inr (record_contrib key contrib peso a)))"

text \<open>
  The inline blocks of the scorer all have the shape
  \<^verbatim>\<open>if value is not None and peso > 0: contrib = ...; score += contrib; max_score += peso;
  breakdown[key] = contrib\<close>; \<open>rule\<close> is the block's computation of \<^verbatim>\<open>contrib\<close>.
\<close>

definition inline_block ::
  "weights \<Rightarrow> string \<Rightarrow> pyval option \<Rightarrow> (pyval \<Rightarrow> real \<Rightarrow> error + real) \<Rightarrow> step" where
  "inline_block pesos key value rule a =
     (let peso = pesos_get pesos key in
      case value of
        None \<Rightarrow> Inr a
      | Some v \<Rightarrow>
          if peso > 0 then
            (case rule v peso of
               Inl e \<Rightarrow> Inl e
             | Inr contrib \<Rightarrow> Inr (record_contrib key contrib peso a))
          else Inr a)"

text \<open>\<^verbatim>\<open>contrib = peso if c else peso * 0.5\<close>\<close>

definition full_or_half :: "error + bool \<Rightarrow> real \<Rightarrow> error + real" where
  "full_or_half c peso = cond c (Inr peso) (Inr (peso * 0.5))"

text \<open>\<^verbatim>\<open>if c1: contrib = peso; elif c2: contrib = peso * 0.5; else: contrib = 0.0\<close>\<close>

definition full_half_zero :: "error + bool \<Rightarrow> error + bool \<Rightarrow> real \<Rightarrow> error + real" where
  "full_half_zero c1 c2 peso = cond c1 (Inr peso) (cond c2 (Inr (peso * 0.5)) (Inr 0))"

subsection \<open>The default weight table\<close>

definition DEFAULT_WEIGHTS :: weights where
  "DEFAULT_WEIGHTS =
    [(''stereo'', 1.0), (''logD'', 1.0), (''logP'', 1.0), (''free_energy_hyd'', 1.0),
     (''qed'', 0.5), (''SAscore'', 1.0),
     (''ghose'', 1.0), (''lead'', 1.0), (''brenk'', 1.0), (''bioavailability'', 0.5),
     (''alarm_nmr'', 1.0), (''coloidal_ag'', 1.0),
     (''reactive'', 0.5), (''green_fluor'', 0.5), (''other_interference'', 0.5),
     (''caco2'', 1.5), (''pampa'', 1.5),
     (''mdck'', 1.0),
     (''pgp_subs'', 1.5), (''hia'', 0.5),
     (''logvds'', 1.0), (''fu'', 0.5), (''cns_permeability'', 0.5),
     (''mrp1'', 1.0), (''bsep'', 1.0), (''oatp1b3'', 1.0), (''oatp1b1'', 1.0),
     (''CYP2C9_inh'', 0.5), (''CYP2C8_inh'', 1.0),
     (''CYP2C19_inh'', 1.0), (''CYP2C19_sub'', 1.0),
     (''CYP2D6_inh'', 1.5), (''CYP2D6_sub'', 1.5),
     (''CYP3A4_inh'', 1.5), (''CYP3A4_sub'', 1.5),
     (''CYP2B6_inh'', 1.0), (''hlm_stab'', 1.0),
     (''oct2_subs'', 1.0), (''cl_total'', 0.5),
     (''cl_plasma'', 0.5),
     (''neuro_tox'', 1.0), (''oto_tox'', 1.0), (''hema_tox'', 1.0), (''gen_tox'', 1.0),
     (''carcino_tox'', 1.0),
     (''ames'', 1.5), (''herg'', 0.5), (''herg_10um'', 0.5), (''hepa_tox'', 1.0),
     (''dili'', 1.0), (''LC50FM'', 1.0),
     (''A549'', 1.0), (''HEK293'', 0.5), (''ROA'', 1.0), (''FDAMDD'', 1.0), (''IGC50'', 1.0),
     (''LC50DM'', 1.0),
     (''nr_ar'', 1.0), (''nr_ar_lbd'', 0.5), (''nr_er'', 1.0), (''nr_arom'', 1.0),
     (''nr_ahr'', 0.5), (''sr_are'', 1.0),
     (''sr_atad5'', 0.5), (''sr_mmp'', 0.5), (''sr_p53'', 1.0), (''sure_chembl'', 1.0)]"

subsection \<open>The seven category blocks\<close>

text \<open>
  The body of the scorer is straight-line code: a sequence of statements, each of which
  either updates the accumulators or raises. Each statement is one \<open>step\<close>, in the order of
  the source; a block is the list of its statements.
\<close>

definition FQ_block :: "row \<Rightarrow> weights \<Rightarrow> step list" where
  "FQ_block row pesos =
    [add_score pesos ''stereo'' (row_get_default row ''nStereo'' (row_get row ''stereo_centers''))
       True 1 2 0.7,
     inline_block pesos ''logD'' (row_get row ''logD'')
       (\<lambda>logd_value peso_logd. full_or_half (py_between 1 logd_value 3) peso_logd),
     inline_block pesos ''logP''
       (py_or (py_or (row_get row ''WLOGP'') (row_get row ''LOGP'')) (row_get row ''logP''))
       (\<lambda>logp_value peso_logp.
          full_half_zero (py_between 0.95 logp_value 2.2) (py_ge logp_value 0) peso_logp),
     inline_block pesos ''free_energy_hyd'' (row_get row ''HydrationFreeEnergy_FreeSolv'')
       (\<lambda>free_energy_hyd peso_hyd. full_or_half (py_ge free_energy_hyd (- 7)) peso_hyd)]"

definition MedChem_block :: "row \<Rightarrow> weights \<Rightarrow> step list" where
  "MedChem_block row pesos =
    [inline_block pesos ''qed'' (row_get row ''QED'')
       (\<lambda>qed peso_qed. full_half_zero (py_ge qed 0.67) (py_gt qed 0.49) peso_qed),
     add_score pesos ''SAscore''
       (row_get_default row ''Synthetic Accessibility'' (row_get row ''Synth'')) True 2 4.25 6,
     add_score pesos ''ghose'' (row_get row ''Ghose #violations'') True 2 0 1,
     add_score pesos ''lead'' (row_get row ''Leadlikeness #violations'') True 2 0 1,
     add_score pesos ''brenk'' (row_get row ''Brenk #alerts'') True 2 0 1,
     inline_block pesos ''bioavailability''
       (row_get_default row ''Bioavailability_Ma'' (row_get row ''Bioavailability Score''))
       (\<lambda>bioavailability peso_bio. full_or_half (py_ge bioavailability 0.55) peso_bio),
     inline_block pesos ''alarm_nmr'' (row_get row ''Alarm_NMR'')
       (\<lambda>alarm_nmr peso_alarm_nmr. full_or_half (Inr (is_dash alarm_nmr)) peso_alarm_nmr),
     add_score pesos ''coloidal_ag'' (row_get row ''Aggregators'') True 2 0.3 0.7,
     add_score pesos ''reactive'' (row_get row ''Reactive'') True 2 0.3 0.7,
     add_score pesos ''green_fluor'' (row_get row ''Green_fluorescence'') True 2 0.3 0.7,
     add_score pesos ''other_interference'' (row_get row ''Other_assay_interference'')
       True 2 0.3 0.7]"

text \<open>The two statements that score \<^verbatim>\<open>caco2\<close> open the absorption block.\<close>

definition caco2_statements :: "row \<Rightarrow> weights \<Rightarrow> step list" where
  "caco2_statements row pesos =
    [inline_block pesos ''caco2'' (py_or (row_get row ''Caco2_Wang'') (row_get row ''caco2''))
       (\<lambda>caco2 peso_caco2. full_or_half (py_ge caco2 (- 5.15)) peso_caco2),
     inline_block pesos ''caco2'' (row_get row ''Caco2 permeability'')
       (\<lambda>caco2_papp peso_caco2. full_or_half (py_ge caco2_papp 0.9) peso_caco2)]"

definition Abs_block :: "row \<Rightarrow> weights \<Rightarrow> step list" where
  "Abs_block row pesos =
    caco2_statements row pesos @
    [inline_block pesos ''pampa'' (row_get row ''PAMPA_NCATS'')
       (\<lambda>pampa peso_pampa. full_half_zero (py_ge pampa 0.7) (py_ge pampa 0.3) peso_pampa),
     add_score pesos ''pampa'' (row_get row ''PAMPA'') True 2 0.3 0.7,
     inline_block pesos ''mdck'' (row_get row ''MDCK'')
       (\<lambda>mdck peso_mdck. full_or_half (py_between (- 5.26) mdck 5.17) peso_mdck),
     add_score pesos ''pgp_subs'' (row_get row ''pgp_sub'') True 3 0.3 0.7,
     inline_block pesos ''pgp_subs''
       (row_get_default row ''Pgp substrate'' (row_get row ''P-glycoprotein substrate''))
       (\<lambda>pgp_substrate peso_pgp. full_or_half (Inr (py_eq_str pgp_substrate ''No'')) peso_pgp),
     inline_block pesos ''hia'' (row_get row ''Intestinal absorption (human)'')
       (\<lambda>hia peso_hia. full_or_half (py_between 30 hia 70) peso_hia)]"

definition Dis_block :: "row \<Rightarrow> weights \<Rightarrow> step list" where
  "Dis_block row pesos =
    [inline_block pesos ''logvds'' (row_get row ''VDss (human)'')
       (\<lambda>logvds peso_logvds. full_or_half (py_between 0.45 logvds 0.75) peso_logvds),
     inline_block pesos ''logvds'' (row_get row ''VDss_Lombardo'')
       (\<lambda>logvds_lombardo peso_logvds.
          full_or_half (py_between 2 logvds_lombardo 5) peso_logvds),
     inline_block pesos ''logvds'' (row_get row ''logVDss'')
       (\<lambda>logvds_lab3 peso_logvds. full_or_half (py_ge logvds_lab3 0.04) peso_logvds),
     inline_block pesos ''fu'' (row_get row ''Fraction unbound (human)'')
       (\<lambda>fu peso_fu. full_or_half (py_between 0.1 fu 0.5) peso_fu),
     inline_block pesos ''fu'' (row_get row ''Fu'')
       (\<lambda>fu_lab3 peso_fu. full_or_half (py_between 58.3 fu_lab3 62.0) peso_fu),
     inline_block pesos ''cns_permeability'' (row_get row ''CNS permeability'')
       (\<lambda>cns_perm peso_cns_perm. full_or_half (py_le cns_perm (- 2)) peso_cns_perm),
     add_score pesos ''mrp1'' (row_get row ''MRP1'') True 3 0.3 0.7,
     add_score pesos ''bsep'' (row_get row ''BSEP'') True 3 0.3 0.7,
     add_score pesos ''oatp1b3'' (row_get row ''OATP1B3'') True 3 0.3 0.7,
     add_score pesos ''oatp1b1'' (row_get row ''OATP1B1'') True 3 0.3 0.7]"

definition Met_block :: "row \<Rightarrow> weights \<Rightarrow> step list" where
  "Met_block row pesos =
    [add_score pesos ''CYP2C9_inh'' (row_get row ''CYP2C9-inh'') True 2 0.3 0.7,
     add_score pesos ''CYP2C8_inh'' (row_get row ''CYP2C8-inh'') True 2 0.3 0.7,
     add_score pesos ''CYP2C19_inh'' (row_get row ''CYP2C19-inh'') True 2 0.3 0.7,
     add_score pesos ''CYP2C19_sub'' (row_get row ''CYP2C19-sub'') True 2 0.3 0.7,
     inline_block pesos ''CYP2C19_inh'' (row_get row ''CYP2C19 inhibitor'')
       (\<lambda>cyp2c19_inh peso_cyp2c19_inh.
          full_or_half (Inr (py_eq_str cyp2c19_inh ''No'')) peso_cyp2c19_inh),
     add_score pesos ''CYP2D6_inh'' (row_get row ''CYP2D6-inh'') True 2 0.3 0.7,
     add_score pesos ''CYP2D6_sub''
       (row_get_default row ''CYP2D6-sub'' (row_get row ''CYP2D6_Substrate_CarbonMangels''))
       True 3 0.3 0.7,
     add_score pesos ''CYP3A4_inh''
       (row_get_default row ''CYP3A4-inh'' (row_get row ''CYP3A4_Veith'')) True 3 0.3 0.7,
     add_score pesos ''CYP3A4_sub''
       (row_get_default row ''CYP3A4-sub'' (row_get row ''CYP3A4_Substrate_CarbonMangels''))
       True 2 0.3 0.7,
     inline_block pesos ''CYP3A4_sub'' (row_get row ''CYP3A4 substrate'')
       (\<lambda>cyp3a4_subs peso_cyp3a4_subs.
          full_or_half (Inr (py_eq_str cyp3a4_subs ''No'')) peso_cyp3a4_subs),
     add_score pesos ''CYP2B6_inh'' (row_get row ''CYP2B6-inh'') True 3 0.3 0.7,
     add_score pesos ''hlm_stab'' (row_get row ''LM-human'') True 3 0.3 0.7]"

definition Exc_block :: "row \<Rightarrow> weights \<Rightarrow> step list" where
  "Exc_block row pesos =
    [inline_block pesos ''oct2_subs'' (row_get row ''Renal OCT2 substrate'')
       (\<lambda>oct2_subs peso_oct2_subs.
          full_or_half (Inr (py_eq_str oct2_subs ''No'')) peso_oct2_subs),
     inline_block pesos ''cl_total'' (row_get row ''Total Clearance'')
       (\<lambda>cl_total peso_cl_total. full_or_half (py_between 1.2 cl_total 1.3) peso_cl_total),
     inline_block pesos ''cl_plasma'' (row_get row ''cl-plasma'')
       (\<lambda>cl_plasma peso_cl_plasma. full_or_half (py_between 7 cl_plasma 8) peso_cl_plasma)]"

text \<open>The three statements that score \<^verbatim>\<open>ames\<close>, the sixth to eighth of the toxicity block.\<close>

definition ames_statements :: "row \<Rightarrow> weights \<Rightarrow> step list" where
  "ames_statements row pesos =
    [add_score pesos ''ames'' (row_get row ''Ames'') True 3 0.3 0.7,
     add_score pesos ''ames'' (row_get row ''AMES'') True 3 0.1 0.2,
     inline_block pesos ''ames'' (row_get row ''AMES toxicity'')
       (\<lambda>ames_tox peso_ames. full_or_half (Inr (py_eq_str ames_tox ''No'')) peso_ames)]"

definition Tox_block :: "row \<Rightarrow> weights \<Rightarrow> step list" where
  "Tox_block row pesos =
    [add_score pesos ''resp_tox'' (row_get row ''Respiratory'') True 3 0.3 0.7,
     add_score pesos ''neuro_tox'' (row_get row ''Neurotoxicity-DI'') True 3 0.3 0.7,
     add_score pesos ''oto_tox'' (row_get row ''Ototoxicity'') True 3 0.3 0.7,
     add_score pesos ''hema_tox'' (row_get row ''Hematotoxicity'') True 3 0.3 0.7,
     add_score pesos ''gen_tox'' (row_get row ''Genotoxicity'') True 3 0.3 0.7] @
    ames_statements row pesos @
    [add_score pesos ''carcino_tox'' (row_get row ''Carcinogenicity'') True 3 0.3 0.7,
     add_score pesos ''herg'' (row_get row ''hERG'') True 3 0.3 0.7,
     add_score pesos ''herg_10um'' (row_get row ''hERG-10um'') True 3 0.3 0.7,
     add_score pesos ''hepa_tox'' (row_get row ''H-HT'') True 3 0.3 0.7,
     add_score pesos ''dili'' (row_get row ''DILI'') True 3 0.3 0.8,
     add_score pesos ''dili'' (row_get row ''DILI_AI'') True 3 0.05 0.10,
     inline_block pesos ''dili'' (row_get row ''Hepatotoxicity'')
       (\<lambda>dili_pkcsm peso_dili_pkcsm.
          full_or_half (Inr (py_eq_str dili_pkcsm ''No'')) peso_dili_pkcsm),
     add_score pesos ''A549'' (row_get row ''A549'') True 3 0.3 0.7,
     add_score pesos ''HEK293'' (row_get row ''HEK293'') True 3 0.3 0.7,
     add_score pesos ''ROA'' (row_get row ''ROA'') True 3 0.3 0.7,
     add_score pesos ''FDAMDD'' (row_get row ''FDAMDD'') True 3 0.3 0.7,
     inline_block pesos ''IGC50'' (row_get row ''IGC50'')
       (\<lambda>igc50_value peso_igc50. full_or_half (py_le igc50_value 3.5) peso_igc50),
     add_score pesos ''IGC50'' (row_get row ''<i>T.Pyriformis</i> toxicity'') True 1 0.3 0.7,
     add_score pesos ''LC50FM'' (row_get row ''LC50FM'') True 3 3 4.3,
     inline_block pesos ''LC50FM'' (row_get row ''Minnow toxicity'')
       (\<lambda>lc50fm_value peso_lc50fm. full_or_half (py_ge lc50fm_value 2.06) peso_lc50fm),
     add_score pesos ''LC50DM'' (row_get row ''LC50DM'') True 3 4.5 4.7,
     add_score pesos ''nr_ar'' (row_get row ''NR-AR'') True 3 0.3 0.7,
     add_score pesos ''nr_ar_lbd'' (row_get row ''NR-AR-LBD'') True 3 0.3 0.7,
     add_score pesos ''nr_er'' (row_get row ''NR-ER'') True 3 0.3 0.7,
     add_score pesos ''nr_arom'' (row_get row ''NR-Aromatase'') True 3 0.3 0.7,
     add_score pesos ''nr_ahr'' (row_get row ''NR-AhR'') True 3 0.3 0.7,
     add_score pesos ''sr_are'' (row_get row ''SR-ARE'') True 3 0.3 0.7,
     add_score pesos ''sr_atad5'' (row_get row ''SR-ATAD5'') True 3 0.3 0.7,
     add_score pesos ''sr_mmp'' (row_get row ''SR-MMP'') True 3 0.3 0.7,
     add_score pesos ''sr_p53'' (row_get row ''SR-p53'') True 3 0.3 0.7,
     inline_block pesos ''sure_chembl'' (row_get row ''SureChEMBL'')
       (\<lambda>sure_chembl peso_sure_chembl.
          full_or_half (Inr (is_dash sure_chembl)) peso_sure_chembl)]"

subsection \<open>The scorer\<close>

record categories =
  FQ :: bool
  MedChem :: bool
  Abs :: bool
  Dis :: bool
  Met :: bool
  Exc :: bool
  Tox :: bool

text \<open>The statements inside \<^verbatim>\<open>try\<close>: each block is guarded by its category flag.\<close>

definition body :: "row \<Rightarrow> weights \<Rightarrow> categories \<Rightarrow> step list" where
  "body row pesos cats =
     (if FQ cats then FQ_block row pesos else []) @
     (if MedChem cats then MedChem_block row pesos else []) @
     (if Abs cats then Abs_block row pesos else []) @
     (if Dis cats then Dis_block row pesos else []) @
     (if Met cats then Met_block row pesos else []) @
     (if Exc cats then Exc_block row pesos else []) @
     (if Tox cats then Tox_block row pesos else [])"

text \<open>Running a sequence of statements stops at the first one that raises.\<close>

fun run_steps :: "step list \<Rightarrow> acc \<Rightarrow> error + acc" where
  "run_steps [] a = Inr a"
| "run_steps (f # fs) a = (case f a of Inl e \<Rightarrow> Inl e | Inr a' \<Rightarrow> run_steps fs a')"

text \<open>\<^verbatim>\<open>round(x, ndigits)\<close>: to the nearest multiple of \<open>10 ^ - ndigits\<close>, ties to even.\<close>

definition round_half_even :: "real \<Rightarrow> int" where
  "round_half_even x =
     (let f = \<lfloor>x\<rfloor>; d = x - of_int f in
      if d < 1 / 2 then f else if d > 1 / 2 then f + 1 else if even f then f else f + 1)"

definition py_round :: "real \<Rightarrow> nat \<Rightarrow> real" where
  "py_round x ndigits = of_int (round_half_even (x * 10 ^ ndigits)) / 10 ^ ndigits"

text \<open>
  The argument \<^verbatim>\<open>row\<close> is any Python object; the scorer accepts a \<^verbatim>\<open>pd.Series\<close> only.
  The value returned is a float, or the tuple \<^verbatim>\<open>(score, norm_score, breakdown)\<close>.
\<close>

datatype pyobj = Series row | NotSeries

datatype result = Float real | Tuple real real "(string \<times> real) list"

text \<open>\<^verbatim>\<open>pesos = pesos or DEFAULT_WEIGHTS\<close>: \<^verbatim>\<open>None\<close> and the empty dictionary are falsy.\<close>

definition pesos_or_default :: "weights option \<Rightarrow> weights" where
  "pesos_or_default pesos =
     (case pesos of None \<Rightarrow> DEFAULT_WEIGHTS | Some w \<Rightarrow> if w = [] then DEFAULT_WEIGHTS else w)"

definition calcular_puntaje_admet ::
  "pyobj \<Rightarrow> weights option \<Rightarrow> bool \<Rightarrow> categories \<Rightarrow> error + result" where
  "calcular_puntaje_admet row pesos return_breakdown cats =
     (let pesos = pesos_or_default pesos in
      case row of
        NotSeries \<Rightarrow> Inl ValueError
      | Series r \<Rightarrow>
          (case run_steps (body r pesos cats) acc0 of
             Inl e \<Rightarrow> Inr (Float 0)
           | Inr a \<Rightarrow>
               (let norm_score =
                      (if max_score a > 0 then py_round (score a / max_score a) 4 else 0)
                in if return_breakdown then Inr (Tuple (score a) norm_score (breakdown a))
                   else Inr (Float norm_score))))"

text \<open>The default call: every category enabled.\<close>

definition all_categories :: categories where
  "all_categories =
     \<lparr>FQ = True, MedChem = True, Abs = True, Dis = True, Met = True, Exc = True, Tox = True\<rparr>"

definition no_categories :: categories where
  "no_categories =
     \<lparr>FQ = False, MedChem = False, Abs = False, Dis = False, Met = False, Exc = False,
      Tox = False\<rparr>"

text \<open>\<^verbatim>\<open>MedChem=True, Tox=True\<close>, the other flags \<^verbatim>\<open>False\<close>.\<close>

definition MedChem_Tox :: categories where
  "MedChem_Tox =
     \<lparr>FQ = False, MedChem = True, Abs = False, Dis = False, Met = False, Exc = False,
      Tox = True\<rparr>"

subsection \<open>Consensus aggregation\<close>

text \<open>
  A per-source table has the columns \<^verbatim>\<open>name\<close> and \<^verbatim>\<open>ADMET_Norm_Score\<close>: a list of rows
  \<open>(name, score)\<close>. After the renaming to \<^verbatim>\<open>ADMET Score i\<close> and the merges, a row of the merged
  table holds the name and the scores of the sources, in the order of the sources.
\<close>

type_synonym score_table = "(string \<times> real) list"

type_synonym merged_table = "(string \<times> real list) list"

definition first_table :: "score_table \<Rightarrow> merged_table" where
  "first_table df = map (\<lambda>(n, s). (n, [s])) df"

text \<open>\<^verbatim>\<open>pd.merge(left, right, on="name", how="inner")\<close>: every left row is paired with every
  right row of the same name, in the order of the left rows.\<close>

definition merge_inner :: "merged_table \<Rightarrow> score_table \<Rightarrow> merged_table" where
  "merge_inner left right =
     concat (map (\<lambda>(n, ss). map (\<lambda>(m, s). (n, ss @ [s])) (filter (\<lambda>(m, s). m = n) right)) left)"

text \<open>\<^verbatim>\<open>df[score_cols].mean(axis=1)\<close>\<close>

definition mean :: "real list \<Rightarrow> real" where
  "mean xs = sum_list xs / real (length xs)"

text \<open>\<^verbatim>\<open>.rank(ascending=False, method="dense").astype(int)\<close>: one more than the number of
  distinct values of the column that are greater.\<close>

definition rank_dense_desc :: "real list \<Rightarrow> real \<Rightarrow> int" where
  "rank_dense_desc col x = int (length (filter (\<lambda>y. y > x) (remdups col))) + 1"

record consensus_row =
  name :: string
  scores :: "real list"
  admet_score_consensus :: real
  admet_rank_consensus :: int

definition consensus_score :: "score_table list \<Rightarrow> error + consensus_row list" where
  "consensus_score dfs =
     (case dfs of
        [] \<Rightarrow> Inl IndexError
      | df0 # rest \<Rightarrow>
          (let df_merged = foldl merge_inner (first_table df0) rest;
               consensus = map (\<lambda>(n, ss). mean ss) df_merged;
               ranked = map (\<lambda>(n, ss).
                          \<lparr>name = n, scores = ss, admet_score_consensus = mean ss,
                           admet_rank_consensus = rank_dense_desc consensus (mean ss)\<rparr>) df_merged
           in Inr (sort_key admet_rank_consensus ranked)))"

subsection \<open>Predicates of the verification\<close>

text \<open>
  The invariant of the accumulators for a weight table: the score lies between zero and
  \<open>max_score\<close>, and every contribution in the breakdown lies between zero and the weight of its
  criterion. A statement is fine when it keeps the invariant whenever it does not raise.
\<close>

definition acc_ok :: "weights \<Rightarrow> acc \<Rightarrow> bool" where
  "acc_ok pesos a \<longleftrightarrow>
     0 \<le> score a \<and> score a \<le> max_score a \<and>
     (\<forall>(k, c) \<in> set (breakdown a). 0 \<le> c \<and> c \<le> pesos_get pesos k)"

definition step_ok :: "weights \<Rightarrow> step \<Rightarrow> bool" where
  "step_ok pesos f \<longleftrightarrow> (\<forall>a a'. acc_ok pesos a \<longrightarrow> f a = Inr a' \<longrightarrow> acc_ok pesos a')"

section \<open>Properties\<close>

subsection \<open>Evaluating the scorer\<close>

lemma add_score_None: "add_score pesos key None u n b m a = Inr a"
  by (simp add: add_score_def)

lemma inline_block_None: "inline_block pesos key None rule a = Inr a"
  by (simp add: inline_block_def)

lemma run_steps_append:
  "run_steps (fs @ gs) a = (case run_steps fs a of Inl e \<Rightarrow> Inl e | Inr a' \<Rightarrow> run_steps gs a')"
  by (induction fs arbitrary: a) (auto split: sum.splits)

lemma body_MedChem_Tox: "body r p MedChem_Tox = MedChem_block r p @ Tox_block r p"
  by (simp add: body_def MedChem_Tox_def)

lemma body_all_categories:
  "body r p all_categories =
     FQ_block r p @ MedChem_block r p @ Abs_block r p @ Dis_block r p @ Met_block r p @
     Exc_block r p @ Tox_block r p"
  by (simp add: body_def all_categories_def)

lemma body_no_categories: "body r p no_categories = []"
  by (simp add: body_def no_categories_def)

lemmas lookups = row_get_def row_get_default_def py_or_def add_score_None inline_block_None

lemmas evals = add_score_def inline_block_def pesos_get_def DEFAULT_WEIGHTS_def rank_n_def
  cond_def full_or_half_def full_half_zero_def py_between_def py_eq_str_def is_dash_def
  dash_repr_def record_contrib_def Let_def

lemma py_round_1: "py_round 1 4 = 1"
  by (simp add: py_round_def round_half_even_def Let_def)

subsection \<open>The end-to-end example\<close>

lemma qed_ames_MedChem:
  "run_steps (MedChem_block [(''QED'', Num 0.7), (''Ames'', Num 0.2)] DEFAULT_WEIGHTS) acc0 =
     Inr \<lparr>score = 0.5, max_score = 0.5, breakdown = [(''qed'', 0.5)]\<rparr>"
proof -
  have "run_steps (MedChem_block [(''QED'', Num 0.7), (''Ames'', Num 0.2)] DEFAULT_WEIGHTS) acc0 =
      inline_block DEFAULT_WEIGHTS ''qed'' (Some (Num 0.7))
        (\<lambda>qed. full_half_zero (py_ge qed 0.67) (py_gt qed 0.49)) acc0"
    by (simp add: MedChem_block_def lookups split: sum.split)
  also have "\<dots> = Inr \<lparr>score = 0.5, max_score = 0.5, breakdown = [(''qed'', 0.5)]\<rparr>"
    by (simp add: evals acc0_def)
  finally show ?thesis .
qed

lemma qed_ames_Tox:
  "run_steps (Tox_block [(''QED'', Num 0.7), (''Ames'', Num 0.2)] DEFAULT_WEIGHTS)
      \<lparr>score = 0.5, max_score = 0.5, breakdown = [(''qed'', 0.5)]\<rparr> =
     Inr \<lparr>score = 2, max_score = 2, breakdown = [(''qed'', 0.5), (''ames'', 1.5)]\<rparr>"
proof -
  have "run_steps (Tox_block [(''QED'', Num 0.7), (''Ames'', Num 0.2)] DEFAULT_WEIGHTS)
      \<lparr>score = 0.5, max_score = 0.5, breakdown = [(''qed'', 0.5)]\<rparr> =
      add_score DEFAULT_WEIGHTS ''ames'' (Some (Num 0.2)) True 3 0.3 0.7
        \<lparr>score = 0.5, max_score = 0.5, breakdown = [(''qed'', 0.5)]\<rparr>"
    by (simp add: Tox_block_def ames_statements_def lookups split: sum.split)
  also have "\<dots> = Inr \<lparr>score = 2, max_score = 2, breakdown = [(''qed'', 0.5), (''ames'', 1.5)]\<rparr>"
    by (simp add: evals)
  finally show ?thesis .
qed

lemma qed_ames_body:
  "run_steps (body [(''QED'', Num 0.7), (''Ames'', Num 0.2)] DEFAULT_WEIGHTS MedChem_Tox) acc0 =
     Inr \<lparr>score = 2, max_score = 2, breakdown = [(''qed'', 0.5), (''ames'', 1.5)]\<rparr>"
  by (simp only: body_MedChem_Tox run_steps_append qed_ames_MedChem qed_ames_Tox sum.case)

text \<open>
  Claim C7. For the row \<^verbatim>\<open>{'QED': 0.7, 'Ames': 0.2}\<close>, the default weights and only the
  categories \<^verbatim>\<open>MedChem\<close> and \<^verbatim>\<open>Tox\<close> enabled, the accumulators end at \<open>score = 2.0\<close> and
  \<open>max_score = 2.0\<close> (QED contributes its full weight 0.5, Ames its full weight 1.5), and the
  scorer returns the normalized score 1.0, alone or in the tuple with the score 2.0 and the
  breakdown.
\<close>

theorem end_to_end_QED_Ames:
  "run_steps (body [(''QED'', Num 0.7), (''Ames'', Num 0.2)] (pesos_or_default None) MedChem_Tox)
      acc0 =
     Inr \<lparr>score = 2.0, max_score = 2.0, breakdown = [(''qed'', 0.5), (''ames'', 1.5)]\<rparr> \<and>
   calcular_puntaje_admet (Series [(''QED'', Num 0.7), (''Ames'', Num 0.2)]) None True MedChem_Tox =
     Inr (Tuple 2.0 1.0 [(''qed'', 0.5), (''ames'', 1.5)]) \<and>
   calcular_puntaje_admet (Series [(''QED'', Num 0.7), (''Ames'', Num 0.2)]) None False MedChem_Tox =
     Inr (Float 1.0)"
  apply (simp only: calcular_puntaje_admet_def pesos_or_default_def option.case pyobj.case
      Let_def qed_ames_body sum.case)
  apply (simp add: py_round_1)
  done

subsection \<open>The value returned\<close>

lemma calcular_Series_Inr:
  "run_steps (body r (pesos_or_default pesos) cats) acc0 = Inr a \<Longrightarrow>
   calcular_puntaje_admet (Series r) pesos rb cats =
     Inr (if rb
          then Tuple (score a)
                 (if max_score a > 0 then py_round (score a / max_score a) 4 else 0) (breakdown a)
          else Float (if max_score a > 0 then py_round (score a / max_score a) 4 else 0))"
  by (simp add: calcular_puntaje_admet_def Let_def)

lemma calcular_Series_Inl:
  "run_steps (body r (pesos_or_default pesos) cats) acc0 = Inl e \<Longrightarrow>
   calcular_puntaje_admet (Series r) pesos rb cats = Inr (Float 0)"
  by (simp add: calcular_puntaje_admet_def Let_def)

lemma pesos_or_default_None: "pesos_or_default None = DEFAULT_WEIGHTS"
  by (simp add: pesos_or_default_def)

subsection \<open>Two-tier criteria above the middle threshold\<close>

lemma py_round_0: "py_round 0 4 = 0"
  by (simp add: py_round_def round_half_even_def Let_def)

lemma ghose_body:
  "run_steps (body [(''Ghose #violations'', Num 2)] DEFAULT_WEIGHTS all_categories) acc0 =
     Inr \<lparr>score = 0, max_score = 1, breakdown = [(''ghose'', 0)]\<rparr>"
proof -
  let ?r = "[(''Ghose #violations'', Num 2)]"
  let ?D = DEFAULT_WEIGHTS
  have fq: "\<And>a. run_steps (FQ_block ?r ?D) a = Inr a"
    by (simp add: FQ_block_def lookups)
  have mc: "run_steps (MedChem_block ?r ?D) acc0 =
      add_score ?D ''ghose'' (Some (Num 2)) True 2 0 1 acc0"
    by (simp add: MedChem_block_def lookups split: sum.split)
  have gh: "add_score ?D ''ghose'' (Some (Num 2)) True 2 0 1 acc0 =
      Inr \<lparr>score = 0, max_score = 1, breakdown = [(''ghose'', 0)]\<rparr>"
    by (simp add: evals acc0_def)
  have ab: "\<And>a. run_steps (Abs_block ?r ?D) a = Inr a"
    by (simp add: Abs_block_def caco2_statements_def lookups)
  have di: "\<And>a. run_steps (Dis_block ?r ?D) a = Inr a"
    by (simp add: Dis_block_def lookups)
  have me: "\<And>a. run_steps (Met_block ?r ?D) a = Inr a"
    by (simp add: Met_block_def lookups)
  have ex: "\<And>a. run_steps (Exc_block ?r ?D) a = Inr a"
    by (simp add: Exc_block_def lookups)
  have to: "\<And>a. run_steps (Tox_block ?r ?D) a = Inr a"
    by (simp add: Tox_block_def ames_statements_def lookups)
  show ?thesis
    by (simp only: body_all_categories run_steps_append fq mc gh ab di me ex to sum.case)
qed

text \<open>
  Claim C1 as stated (a two-tier criterion whose value is above the middle threshold leaves
  \<open>max_score\<close> and the breakdown untouched) fails: for the row \<^verbatim>\<open>{'Ghose #violations': 2}\<close>
  and the default weights, \<open>2 > 1\<close> is above the middle threshold of \<^verbatim>\<open>ghose\<close>, yet the
  accumulators end with \<open>max_score = 1\<close> and the breakdown entry \<open>ghose = 0\<close>, and the tuple
  returned carries that entry.
\<close>

theorem tier2_above_middle_counterexample:
  "(2::real) > 1 \<and>
   run_steps (body [(''Ghose #violations'', Num 2)] (pesos_or_default None) all_categories) acc0 =
     Inr \<lparr>score = 0, max_score = 1, breakdown = [(''ghose'', 0)]\<rparr> \<and>
   run_steps (body [(''Ghose #violations'', Num 2)] (pesos_or_default None) all_categories) acc0 \<noteq>
     Inr acc0 \<and>
   calcular_puntaje_admet (Series [(''Ghose #violations'', Num 2)]) None True all_categories =
     Inr (Tuple 0 0 [(''ghose'', 0)])"
  apply (simp only: calcular_puntaje_admet_def pesos_or_default_def option.case pyobj.case
      Let_def ghose_body sum.case)
  apply (simp add: acc0_def py_round_0)
  done

text \<open>
  Claim C1, amended. For a call of \<^verbatim>\<open>add_score\<close> with \<^verbatim>\<open>n_threshold=2\<close>, a non-zero weight
  and thresholds \<open>best \<le> middle\<close>, a numeric value strictly above the middle threshold makes
  \<^verbatim>\<open>rank_n\<close> return \<open>0.0\<close> (the final \<^verbatim>\<open>return 0.0\<close>), and the scorer records it as a zero
  contribution: the score is unchanged, the weight is added to \<open>max_score\<close>, and the breakdown
  gets the entry \<open>0.0\<close> for the criterion.
\<close>

theorem tier2_above_middle:
  assumes "pesos_get pesos key \<noteq> 0" and "best_threshold \<le> middle_threshold"
    and "middle_threshold < v"
  shows "rank_n (Some (Num v)) (pesos_get pesos key) 2 best_threshold middle_threshold = Inr 0 \<and>
    add_score pesos key (Some (Num v)) True 2 best_threshold middle_threshold a =
      Inr \<lparr>score = score a, max_score = max_score a + pesos_get pesos key,
           breakdown = AList.update key 0 (breakdown a)\<rparr>"
  using assms by (simp add: add_score_def rank_n_def cond_def record_contrib_def)

theorem tier2_above_middle_witness:
  "pesos_get DEFAULT_WEIGHTS ''ghose'' \<noteq> 0 \<and> (0::real) \<le> 1 \<and> (1::real) < 2 \<and>
   rank_n (Some (Num 2)) (pesos_get DEFAULT_WEIGHTS ''ghose'') 2 0 1 = Inr 0 \<and>
   add_score DEFAULT_WEIGHTS ''ghose'' (Some (Num 2)) True 2 0 1 acc0 =
      Inr \<lparr>score = score acc0, max_score = max_score acc0 + pesos_get DEFAULT_WEIGHTS ''ghose'',
           breakdown = AList.update ''ghose'' 0 (breakdown acc0)\<rparr>"
proof -
  have w: "pesos_get DEFAULT_WEIGHTS ''ghose'' \<noteq> 0"
    by (simp add: pesos_get_def DEFAULT_WEIGHTS_def)
  have b: "(0::real) \<le> 1" and m: "(1::real) < 2" by simp_all
  from tier2_above_middle [OF w b m, of acc0] w b m show ?thesis by blast
qed

subsection \<open>A row that raises during evaluation\<close>

lemma logD_str_FQ:
  "run_steps (FQ_block [(''logD'', Str ''abc'')] DEFAULT_WEIGHTS) acc0 = Inl TypeError"
proof -
  have "run_steps (FQ_block [(''logD'', Str ''abc'')] DEFAULT_WEIGHTS) acc0 =
     (case inline_block DEFAULT_WEIGHTS ''logD'' (Some (Str ''abc''))
        (\<lambda>logd_value. full_or_half (py_between 1 logd_value 3)) acc0 of
        Inl e \<Rightarrow> Inl e | Inr a \<Rightarrow> Inr a)"
    by (simp add: FQ_block_def lookups split: sum.split)
  also have "\<dots> = Inl TypeError"
    by (simp add: evals)
  finally show ?thesis .
qed

lemma logD_str_body:
  "run_steps (body [(''logD'', Str ''abc'')] DEFAULT_WEIGHTS all_categories) acc0 = Inl TypeError"
  by (simp only: body_all_categories run_steps_append logD_str_FQ sum.case)

text \<open>
  Claim C2 at the row \<^verbatim>\<open>{'logD': 'abc'}\<close> with \<^verbatim>\<open>return_breakdown=True\<close>: the comparison
  \<^verbatim>\<open>1 <= 'abc'\<close> raises \<^verbatim>\<open>TypeError\<close> inside \<^verbatim>\<open>try\<close>, the handler returns the bare float
  \<open>0.0\<close>, and that is not the tuple \<open>(0.0, 0.0, {})\<close> the caller asked for.
\<close>

theorem malformed_row_returns_bare_float:
  "run_steps (body [(''logD'', Str ''abc'')] (pesos_or_default None) all_categories) acc0 =
     Inl TypeError \<and>
   calcular_puntaje_admet (Series [(''logD'', Str ''abc'')]) None True all_categories =
     Inr (Float 0) \<and>
   calcular_puntaje_admet (Series [(''logD'', Str ''abc'')]) None True all_categories \<noteq>
     Inr (Tuple 0 0 [])"
  apply (simp only: calcular_puntaje_admet_def pesos_or_default_def option.case pyobj.case
      Let_def logD_str_body sum.case)
  apply simp
  done

subsection \<open>Aliases resolved with \<^verbatim>\<open>or\<close>\<close>

lemma wlogp_zero_body:
  "run_steps (body [(''WLOGP'', Num 0), (''LOGP'', Num 1.5)] DEFAULT_WEIGHTS all_categories) acc0 =
     Inr \<lparr>score = 1, max_score = 1, breakdown = [(''logP'', 1)]\<rparr>"
proof -
  let ?r = "[(''WLOGP'', Num 0), (''LOGP'', Num 1.5)]"
  let ?D = DEFAULT_WEIGHTS
  have fq: "run_steps (FQ_block ?r ?D) acc0 =
      inline_block ?D ''logP'' (Some (Num 1.5))
       (\<lambda>logp_value. full_half_zero (py_between 0.95 logp_value 2.2) (py_ge logp_value 0)) acc0"
    by (simp add: FQ_block_def lookups split: sum.split)
  have lp: "inline_block ?D ''logP'' (Some (Num 1.5))
       (\<lambda>logp_value. full_half_zero (py_between 0.95 logp_value 2.2) (py_ge logp_value 0)) acc0 =
      Inr \<lparr>score = 1, max_score = 1, breakdown = [(''logP'', 1)]\<rparr>"
    by (simp add: evals acc0_def)
  have mc: "\<And>a. run_steps (MedChem_block ?r ?D) a = Inr a"
    by (simp add: MedChem_block_def lookups)
  have ab: "\<And>a. run_steps (Abs_block ?r ?D) a = Inr a"
    by (simp add: Abs_block_def caco2_statements_def lookups)
  have di: "\<And>a. run_steps (Dis_block ?r ?D) a = Inr a"
    by (simp add: Dis_block_def lookups)
  have me: "\<And>a. run_steps (Met_block ?r ?D) a = Inr a"
    by (simp add: Met_block_def lookups)
  have ex: "\<And>a. run_steps (Exc_block ?r ?D) a = Inr a"
    by (simp add: Exc_block_def lookups)
  have to: "\<And>a. run_steps (Tox_block ?r ?D) a = Inr a"
    by (simp add: Tox_block_def ames_statements_def lookups)
  show ?thesis
    by (simp only: body_all_categories run_steps_append fq lp mc ab di me ex to sum.case)
qed

lemma wlogp_zero_alone_body:
  "run_steps (body [(''WLOGP'', Num 0)] DEFAULT_WEIGHTS all_categories) acc0 = Inr acc0"
proof -
  let ?r = "[(''WLOGP'', Num 0)]"
  let ?D = DEFAULT_WEIGHTS
  have fq: "\<And>a. run_steps (FQ_block ?r ?D) a = Inr a"
    by (simp add: FQ_block_def lookups)
  have mc: "\<And>a. run_steps (MedChem_block ?r ?D) a = Inr a"
    by (simp add: MedChem_block_def lookups)
  have ab: "\<And>a. run_steps (Abs_block ?r ?D) a = Inr a"
    by (simp add: Abs_block_def caco2_statements_def lookups)
  have di: "\<And>a. run_steps (Dis_block ?r ?D) a = Inr a"
    by (simp add: Dis_block_def lookups)
  have me: "\<And>a. run_steps (Met_block ?r ?D) a = Inr a"
    by (simp add: Met_block_def lookups)
  have ex: "\<And>a. run_steps (Exc_block ?r ?D) a = Inr a"
    by (simp add: Exc_block_def lookups)
  have to: "\<And>a. run_steps (Tox_block ?r ?D) a = Inr a"
    by (simp add: Tox_block_def ames_statements_def lookups)
  show ?thesis
    by (simp only: body_all_categories run_steps_append fq mc ab di me ex to sum.case)
qed

text \<open>
  Claim C3 at rows whose highest-priority alias \<^verbatim>\<open>WLOGP\<close> holds \<open>0.0\<close>: with
  \<^verbatim>\<open>{'WLOGP': 0.0, 'LOGP': 1.5}\<close> the value scored is that of \<^verbatim>\<open>LOGP\<close> (full weight 1, where
  \<open>0.0\<close> would have given half the weight), and with \<^verbatim>\<open>{'WLOGP': 0.0}\<close> alone the criterion
  is not scored at all: \<^verbatim>\<open>0.0 or ...\<close> skips the falsy \<open>0.0\<close>.
\<close>

theorem zero_alias_skipped:
  "row_get [(''WLOGP'', Num 0), (''LOGP'', Num 1.5)] ''WLOGP'' = Some (Num 0) \<and>
   calcular_puntaje_admet (Series [(''WLOGP'', Num 0), (''LOGP'', Num 1.5)]) None True
       all_categories = Inr (Tuple 1 1 [(''logP'', 1)]) \<and>
   calcular_puntaje_admet (Series [(''WLOGP'', Num 0)]) None True all_categories =
     Inr (Tuple 0 0 [])"
  apply (simp only: calcular_puntaje_admet_def pesos_or_default_def option.case pyobj.case
      Let_def wlogp_zero_body wlogp_zero_alone_body sum.case)
  apply (simp add: acc0_def py_round_1 row_get_def)
  done

subsection \<open>The empty weight table\<close>

text \<open>
  Claim C10. An empty weight-override mapping is falsy, so \<^verbatim>\<open>pesos or DEFAULT_WEIGHTS\<close>
  replaces it by the default table: for every argument, every flag configuration and both
  return shapes, the call with \<^verbatim>\<open>pesos={}\<close> returns what the call without \<^verbatim>\<open>pesos\<close> returns.
\<close>

theorem empty_weights_is_default:
  "pesos_or_default (Some []) = DEFAULT_WEIGHTS \<and>
   calcular_puntaje_admet row (Some []) return_breakdown cats =
     calcular_puntaje_admet row None return_breakdown cats"
  by (simp add: calcular_puntaje_admet_def pesos_or_default_def)

lemma calcular_Series_never_raises:
  "\<exists>res. calcular_puntaje_admet (Series r) pesos rb cats = Inr res"
  by (cases "run_steps (body r (pesos_or_default pesos) cats) acc0")
    (simp_all add: calcular_Series_Inl calcular_Series_Inr)

lemma calcular_NotSeries_raises:
  "calcular_puntaje_admet NotSeries pesos rb cats = Inl ValueError"
  by (simp add: calcular_puntaje_admet_def)

subsection \<open>The final step\<close>

lemma run_steps_if:
  "run_steps (if c then fs else []) a = (if c then run_steps fs a else Inr a)"
  by simp

lemma empty_row_blocks:
  "run_steps (FQ_block [] p) a = Inr a"
  "run_steps (MedChem_block [] p) a = Inr a"
  "run_steps (Abs_block [] p) a = Inr a"
  "run_steps (Dis_block [] p) a = Inr a"
  "run_steps (Met_block [] p) a = Inr a"
  "run_steps (Exc_block [] p) a = Inr a"
  "run_steps (Tox_block [] p) a = Inr a"
  by (simp_all add: FQ_block_def MedChem_block_def Abs_block_def caco2_statements_def
      Dis_block_def Met_block_def Exc_block_def Tox_block_def ames_statements_def lookups)

lemma empty_row_body: "run_steps (body [] p cats) a = Inr a"
  by (simp add: body_def run_steps_append run_steps_if empty_row_blocks)

text \<open>
  Claim C6. When the statements of the scorer complete with the accumulators \<open>a\<close>, the
  normalized score returned, alone or in the tuple, is \<^verbatim>\<open>round(score / max_score, 4)\<close> if
  \<open>max_score > 0\<close> and \<open>0.0\<close> otherwise. With all seven category flags \<^verbatim>\<open>False\<close>, and for a row
  without any property, the scorer returns \<open>(0.0, 0.0, {})\<close>, respectively \<open>0.0\<close>.
\<close>

theorem normalized_score_final_step:
  "(run_steps (body r (pesos_or_default pesos) cats) acc0 = Inr a \<longrightarrow>
      calcular_puntaje_admet (Series r) pesos True cats =
        Inr (Tuple (score a)
               (if max_score a > 0 then py_round (score a / max_score a) 4 else 0)
               (breakdown a)) \<and>
      calcular_puntaje_admet (Series r) pesos False cats =
        Inr (Float (if max_score a > 0 then py_round (score a / max_score a) 4 else 0))) \<and>
   calcular_puntaje_admet (Series r) pesos True no_categories = Inr (Tuple 0 0 []) \<and>
   calcular_puntaje_admet (Series r) pesos False no_categories = Inr (Float 0) \<and>
   calcular_puntaje_admet (Series []) pesos True cats = Inr (Tuple 0 0 []) \<and>
   calcular_puntaje_admet (Series []) pesos False cats = Inr (Float 0)"
proof -
  have none: "run_steps (body r (pesos_or_default pesos) no_categories) acc0 = Inr acc0"
    by (simp add: body_no_categories)
  have empty: "run_steps (body [] (pesos_or_default pesos) cats) acc0 = Inr acc0"
    by (rule empty_row_body)
  show ?thesis
    by (simp add: calcular_Series_Inr calcular_Series_Inr [OF none]
        calcular_Series_Inr [OF empty] acc0_def)
qed

lemma qed_ghose_body:
  "run_steps (body [(''QED'', Num 0.5), (''Ghose #violations'', Num 0)] DEFAULT_WEIGHTS
       MedChem_Tox) acc0 =
     Inr \<lparr>score = 1.25, max_score = 1.5, breakdown = [(''qed'', 0.25), (''ghose'', 1)]\<rparr>"
proof -
  let ?r = "[(''QED'', Num 0.5), (''Ghose #violations'', Num 0)]"
  let ?D = DEFAULT_WEIGHTS
  have mc: "run_steps (MedChem_block ?r ?D) acc0 =
      (case inline_block ?D ''qed'' (Some (Num 0.5))
              (\<lambda>qed. full_half_zero (py_ge qed 0.67) (py_gt qed 0.49)) acc0 of
         Inl e \<Rightarrow> Inl e
       | Inr a \<Rightarrow> add_score ?D ''ghose'' (Some (Num 0)) True 2 0 1 a)"
    by (simp add: MedChem_block_def lookups split: sum.split)
  have q: "inline_block ?D ''qed'' (Some (Num 0.5))
              (\<lambda>qed. full_half_zero (py_ge qed 0.67) (py_gt qed 0.49)) acc0 =
      Inr \<lparr>score = 0.25, max_score = 0.5, breakdown = [(''qed'', 0.25)]\<rparr>"
    by (simp add: evals acc0_def)
  have g: "add_score ?D ''ghose'' (Some (Num 0)) True 2 0 1
        \<lparr>score = 0.25, max_score = 0.5, breakdown = [(''qed'', 0.25)]\<rparr> =
      Inr \<lparr>score = 1.25, max_score = 1.5, breakdown = [(''qed'', 0.25), (''ghose'', 1)]\<rparr>"
    by (simp add: evals)
  have to: "\<And>a. run_steps (Tox_block ?r ?D) a = Inr a"
    by (simp add: Tox_block_def ames_statements_def lookups)
  show ?thesis
    by (simp only: body_MedChem_Tox run_steps_append mc q g to sum.case)
qed

lemma py_round_five_sixths: "py_round (1.25 / 1.5) 4 = 0.8333"
  by (simp add: py_round_def round_half_even_def Let_def)

theorem normalized_score_final_step_witness:
  "run_steps (body [(''QED'', Num 0.5), (''Ghose #violations'', Num 0)] (pesos_or_default None)
       MedChem_Tox) acc0 =
     Inr \<lparr>score = 1.25, max_score = 1.5, breakdown = [(''qed'', 0.25), (''ghose'', 1)]\<rparr> \<and>
   calcular_puntaje_admet (Series [(''QED'', Num 0.5), (''Ghose #violations'', Num 0)]) None True
       MedChem_Tox = Inr (Tuple 1.25 0.8333 [(''qed'', 0.25), (''ghose'', 1)]) \<and>
   calcular_puntaje_admet (Series [(''QED'', Num 0.5), (''Ghose #violations'', Num 0)]) None False
       MedChem_Tox = Inr (Float 0.8333)"
proof -
  let ?r = "[(''QED'', Num 0.5), (''Ghose #violations'', Num 0)]"
  let ?a = "\<lparr>score = 1.25, max_score = 1.5, breakdown = [(''qed'', 0.25), (''ghose'', 1)]\<rparr>"
  have run: "run_steps (body ?r (pesos_or_default None) MedChem_Tox) acc0 = Inr ?a"
    by (simp only: pesos_or_default_None qed_ghose_body)
  from normalized_score_final_step [of ?r None MedChem_Tox ?a] run
  have "calcular_puntaje_admet (Series ?r) None True MedChem_Tox =
        Inr (Tuple (score ?a)
               (if max_score ?a > 0 then py_round (score ?a / max_score ?a) 4 else 0)
               (breakdown ?a)) \<and>
      calcular_puntaje_admet (Series ?r) None False MedChem_Tox =
        Inr (Float (if max_score ?a > 0 then py_round (score ?a / max_score ?a) 4 else 0))"
    by blast
  moreover have "(if max_score ?a > 0 then py_round (score ?a / max_score ?a) 4 else 0) = 0.8333"
    using py_round_five_sixths by simp
  ultimately show ?thesis using run by simp
qed

subsection \<open>Separately evaluated aliases\<close>

text \<open>
  Where both lookups yield a value, the statements score twice. For a non-zero
  \<^verbatim>\<open>Caco2_Wang\<close> and a \<^verbatim>\<open>Caco2 permeability\<close>, and for \<^verbatim>\<open>Ames\<close> and \<^verbatim>\<open>AMES toxicity\<close>: whatever
  the accumulators are before, each of the two statements adds its contribution to the score
  and the weight of the criterion to \<open>max_score\<close> (twice the weight in all), and the breakdown
  is what a single assignment of the later contribution leaves.
\<close>

lemma aliases_scored_twice_nonzero:
  "(0 < pesos_get pesos ''caco2'' \<and> row_get row ''Caco2_Wang'' = Some (Num x) \<and> x \<noteq> 0 \<and>
    row_get row ''Caco2 permeability'' = Some (Num y) \<longrightarrow>
      run_steps (caco2_statements row pesos) a =
        Inr \<lparr>score = score a
                + (if x \<ge> - 5.15 then pesos_get pesos ''caco2'' else pesos_get pesos ''caco2'' * 0.5)
                + (if y \<ge> 0.9 then pesos_get pesos ''caco2'' else pesos_get pesos ''caco2'' * 0.5),
             max_score = max_score a + pesos_get pesos ''caco2'' + pesos_get pesos ''caco2'',
             breakdown = AList.update ''caco2''
               (if y \<ge> 0.9 then pesos_get pesos ''caco2'' else pesos_get pesos ''caco2'' * 0.5)
               (breakdown a)\<rparr>) \<and>
   (0 < pesos_get pesos ''ames'' \<and> row_get row ''Ames'' = Some (Num u) \<and>
    row_get row ''AMES'' = None \<and> row_get row ''AMES toxicity'' = Some t \<longrightarrow>
      run_steps (ames_statements row pesos) a =
        Inr \<lparr>score = score a
                + (if u \<le> 0.3 then pesos_get pesos ''ames''
                   else if u \<le> 0.7 then pesos_get pesos ''ames'' * 0.5
                   else pesos_get pesos ''ames'' * 0.3)
                + (if t = Str ''No'' then pesos_get pesos ''ames''
                   else pesos_get pesos ''ames'' * 0.5),
             max_score = max_score a + pesos_get pesos ''ames'' + pesos_get pesos ''ames'',
             breakdown = AList.update ''ames''
               (if t = Str ''No'' then pesos_get pesos ''ames''
                else pesos_get pesos ''ames'' * 0.5)
               (breakdown a)\<rparr>)"
  by (simp add: caco2_statements_def ames_statements_def inline_block_def add_score_def
      rank_n_def cond_def full_or_half_def py_eq_str_def py_or_def record_contrib_def Let_def)

lemma aliases_scored_twice_example:
  "0 < pesos_get DEFAULT_WEIGHTS ''caco2'' \<and>
   row_get [(''Caco2_Wang'', Num (- 5)), (''Caco2 permeability'', Num 0.5), (''Ames'', Num 0.2),
            (''AMES toxicity'', Str ''Yes'')] ''Caco2_Wang'' = Some (Num (- 5)) \<and>
   (- 5 :: real) \<noteq> 0 \<and>
   row_get [(''Caco2_Wang'', Num (- 5)), (''Caco2 permeability'', Num 0.5), (''Ames'', Num 0.2),
            (''AMES toxicity'', Str ''Yes'')] ''Caco2 permeability'' = Some (Num 0.5) \<and>
   0 < pesos_get DEFAULT_WEIGHTS ''ames'' \<and>
   row_get [(''Caco2_Wang'', Num (- 5)), (''Caco2 permeability'', Num 0.5), (''Ames'', Num 0.2),
            (''AMES toxicity'', Str ''Yes'')] ''Ames'' = Some (Num 0.2) \<and>
   row_get [(''Caco2_Wang'', Num (- 5)), (''Caco2 permeability'', Num 0.5), (''Ames'', Num 0.2),
            (''AMES toxicity'', Str ''Yes'')] ''AMES'' = None \<and>
   row_get [(''Caco2_Wang'', Num (- 5)), (''Caco2 permeability'', Num 0.5), (''Ames'', Num 0.2),
            (''AMES toxicity'', Str ''Yes'')] ''AMES toxicity'' = Some (Str ''Yes'') \<and>
   run_steps (caco2_statements
       [(''Caco2_Wang'', Num (- 5)), (''Caco2 permeability'', Num 0.5), (''Ames'', Num 0.2),
        (''AMES toxicity'', Str ''Yes'')] DEFAULT_WEIGHTS) acc0 =
     Inr \<lparr>score = 2.25, max_score = 3, breakdown = [(''caco2'', 0.75)]\<rparr> \<and>
   run_steps (ames_statements
       [(''Caco2_Wang'', Num (- 5)), (''Caco2 permeability'', Num 0.5), (''Ames'', Num 0.2),
        (''AMES toxicity'', Str ''Yes'')] DEFAULT_WEIGHTS) acc0 =
     Inr \<lparr>score = 2.25, max_score = 3, breakdown = [(''ames'', 0.75)]\<rparr>"
proof -
  let ?r = "[(''Caco2_Wang'', Num (- 5)), (''Caco2 permeability'', Num 0.5), (''Ames'', Num 0.2),
            (''AMES toxicity'', Str ''Yes'')]"
  have wc: "pesos_get DEFAULT_WEIGHTS ''caco2'' = 1.5"
    and wa: "pesos_get DEFAULT_WEIGHTS ''ames'' = 1.5"
    by (simp_all add: pesos_get_def DEFAULT_WEIGHTS_def)
  have hc: "0 < pesos_get DEFAULT_WEIGHTS ''caco2'' \<and>
      row_get ?r ''Caco2_Wang'' = Some (Num (- 5)) \<and> (- 5 :: real) \<noteq> 0 \<and>
      row_get ?r ''Caco2 permeability'' = Some (Num 0.5)"
    by (simp add: wc row_get_def)
  have ha: "0 < pesos_get DEFAULT_WEIGHTS ''ames'' \<and> row_get ?r ''Ames'' = Some (Num 0.2) \<and>
      row_get ?r ''AMES'' = None \<and> row_get ?r ''AMES toxicity'' = Some (Str ''Yes'')"
    by (simp add: wa row_get_def)
  note inst = aliases_scored_twice_nonzero [where pesos = DEFAULT_WEIGHTS and row = "?r" and a = acc0
      and x = "- 5" and y = "0.5" and u = "0.2" and t = "Str ''Yes''"]
  from inst hc have "run_steps (caco2_statements ?r DEFAULT_WEIGHTS) acc0 =
     Inr \<lparr>score = 2.25, max_score = 3, breakdown = [(''caco2'', 0.75)]\<rparr>"
    by (simp add: wc acc0_def)
  moreover from inst ha have "run_steps (ames_statements ?r DEFAULT_WEIGHTS) acc0 =
     Inr \<lparr>score = 2.25, max_score = 3, breakdown = [(''ames'', 0.75)]\<rparr>"
    by (simp add: wa acc0_def)
  ultimately show ?thesis using hc ha by blast
qed

text \<open>The same row through the whole scorer: the two criteria count for four weights.\<close>

lemma aliases_end_to_end:
  "calcular_puntaje_admet
     (Series [(''Caco2_Wang'', Num (- 5)), (''Caco2 permeability'', Num 0.5), (''Ames'', Num 0.2),
              (''AMES toxicity'', Str ''Yes'')]) None True all_categories =
   Inr (Tuple 4.5 0.75 [(''caco2'', 0.75), (''ames'', 0.75)])"
proof -
  let ?r = "[(''Caco2_Wang'', Num (- 5)), (''Caco2 permeability'', Num 0.5), (''Ames'', Num 0.2),
              (''AMES toxicity'', Str ''Yes'')]"
  let ?D = DEFAULT_WEIGHTS
  let ?a1 = "\<lparr>score = 2.25, max_score = 3, breakdown = [(''caco2'', 0.75)]\<rparr>"
  let ?a2 = "\<lparr>score = 4.5, max_score = 6, breakdown = [(''caco2'', 0.75), (''ames'', 0.75)]\<rparr>"
  have fq: "\<And>a. run_steps (FQ_block ?r ?D) a = Inr a"
    by (simp add: FQ_block_def lookups)
  have mc: "\<And>a. run_steps (MedChem_block ?r ?D) a = Inr a"
    by (simp add: MedChem_block_def lookups)
  have ab: "run_steps (Abs_block ?r ?D) acc0 = run_steps (caco2_statements ?r ?D) acc0"
    by (simp add: Abs_block_def run_steps_append lookups split: sum.split)
  have ca: "run_steps (caco2_statements ?r ?D) acc0 = Inr ?a1"
    by (simp add: caco2_statements_def row_get_def py_or_def evals acc0_def)
  have di: "\<And>a. run_steps (Dis_block ?r ?D) a = Inr a"
    by (simp add: Dis_block_def lookups)
  have me: "\<And>a. run_steps (Met_block ?r ?D) a = Inr a"
    by (simp add: Met_block_def lookups)
  have ex: "\<And>a. run_steps (Exc_block ?r ?D) a = Inr a"
    by (simp add: Exc_block_def lookups)
  have to: "run_steps (Tox_block ?r ?D) ?a1 = run_steps (ames_statements ?r ?D) ?a1"
    by (simp add: Tox_block_def run_steps_append lookups split: sum.split)
  have am: "run_steps (ames_statements ?r ?D) ?a1 = Inr ?a2"
    by (simp add: ames_statements_def row_get_def evals)
  have run: "run_steps (body ?r ?D all_categories) acc0 = Inr ?a2"
    by (simp only: body_all_categories run_steps_append fq mc ab ca di me ex to am sum.case)
  show ?thesis
    apply (simp only: calcular_puntaje_admet_def pesos_or_default_def option.case pyobj.case
        Let_def run sum.case)
    apply (simp add: py_round_def round_half_even_def Let_def)
    done
qed

text \<open>A row whose \<^verbatim>\<open>Caco2_Wang\<close> is \<open>0.0\<close>.\<close>

lemma caco2_zero_body:
  "run_steps (body [(''Caco2_Wang'', Num 0), (''Caco2 permeability'', Num 0.5)] DEFAULT_WEIGHTS
       all_categories) acc0 =
     Inr \<lparr>score = 0.75, max_score = 1.5, breakdown = [(''caco2'', 0.75)]\<rparr>"
proof -
  let ?r = "[(''Caco2_Wang'', Num 0), (''Caco2 permeability'', Num 0.5)]"
  let ?D = DEFAULT_WEIGHTS
  have fq: "\<And>a. run_steps (FQ_block ?r ?D) a = Inr a"
    by (simp add: FQ_block_def lookups)
  have mc: "\<And>a. run_steps (MedChem_block ?r ?D) a = Inr a"
    by (simp add: MedChem_block_def lookups)
  have ab: "run_steps (Abs_block ?r ?D) acc0 =
      inline_block ?D ''caco2'' (Some (Num 0.5))
        (\<lambda>caco2_papp. full_or_half (py_ge caco2_papp 0.9)) acc0"
    by (simp add: Abs_block_def caco2_statements_def lookups split: sum.split)
  have pa: "inline_block ?D ''caco2'' (Some (Num 0.5))
        (\<lambda>caco2_papp. full_or_half (py_ge caco2_papp 0.9)) acc0 =
      Inr \<lparr>score = 0.75, max_score = 1.5, breakdown = [(''caco2'', 0.75)]\<rparr>"
    by (simp add: evals acc0_def)
  have di: "\<And>a. run_steps (Dis_block ?r ?D) a = Inr a"
    by (simp add: Dis_block_def lookups)
  have me: "\<And>a. run_steps (Met_block ?r ?D) a = Inr a"
    by (simp add: Met_block_def lookups)
  have ex: "\<And>a. run_steps (Exc_block ?r ?D) a = Inr a"
    by (simp add: Exc_block_def lookups)
  have to: "\<And>a. run_steps (Tox_block ?r ?D) a = Inr a"
    by (simp add: Tox_block_def ames_statements_def lookups)
  show ?thesis
    by (simp only: body_all_categories run_steps_append fq mc ab pa di me ex to sum.case)
qed

text \<open>
  Claim C4 at the row \<^verbatim>\<open>{'Caco2_Wang': 0.0, 'Caco2 permeability': 0.5}\<close>, which holds values
  under two separately evaluated aliases of \<^verbatim>\<open>caco2\<close>: the lookup
  \<^verbatim>\<open>row.get('Caco2_Wang') or row.get('caco2')\<close> skips the falsy \<open>0.0\<close>, so only
  \<^verbatim>\<open>Caco2 permeability\<close> is scored and the weight 1.5 enters \<open>max_score\<close> once. The scorer
  returns \<open>(0.75, 0.5, {'caco2': 0.75})\<close>, not the \<open>(2.25, 0.75, {'caco2': 0.75})\<close> of two
  scored values.
\<close>

theorem zero_alias_scored_once:
  "row_get [(''Caco2_Wang'', Num 0), (''Caco2 permeability'', Num 0.5)] ''Caco2_Wang'' =
     Some (Num 0) \<and>
   row_get [(''Caco2_Wang'', Num 0), (''Caco2 permeability'', Num 0.5)] ''Caco2 permeability'' =
     Some (Num 0.5) \<and>
   run_steps (body [(''Caco2_Wang'', Num 0), (''Caco2 permeability'', Num 0.5)]
       (pesos_or_default None) all_categories) acc0 =
     Inr \<lparr>score = 0.75, max_score = 1.5, breakdown = [(''caco2'', 0.75)]\<rparr> \<and>
   calcular_puntaje_admet (Series [(''Caco2_Wang'', Num 0), (''Caco2 permeability'', Num 0.5)])
       None True all_categories = Inr (Tuple 0.75 0.5 [(''caco2'', 0.75)]) \<and>
   calcular_puntaje_admet (Series [(''Caco2_Wang'', Num 0), (''Caco2 permeability'', Num 0.5)])
       None True all_categories \<noteq> Inr (Tuple 2.25 0.75 [(''caco2'', 0.75)])"
  apply (simp only: calcular_puntaje_admet_def pesos_or_default_def option.case pyobj.case
      Let_def caco2_zero_body sum.case)
  apply (simp add: row_get_def py_round_def round_half_even_def Let_def)
  done

subsection \<open>The invariant of the accumulators\<close>

lemma set_update_subset: "set (AList.update k v al) \<subseteq> insert (k, v) (set al)"
  by (induction al) auto

lemma record_contrib_ok:
  assumes "acc_ok pesos a" and "0 \<le> c" and "c \<le> pesos_get pesos key"
  shows "acc_ok pesos (record_contrib key c (pesos_get pesos key) a)"
proof -
  have "\<forall>(k, x) \<in> set (AList.update key c (breakdown a)). 0 \<le> x \<and> x \<le> pesos_get pesos k"
    using assms set_update_subset [of key c "breakdown a"]
    by (auto simp: acc_ok_def)
  with assms show ?thesis
    by (simp add: acc_ok_def record_contrib_def)
qed

lemma cond_Inr_cases:
  "cond c t e = Inr x \<Longrightarrow> t = Inr x \<or> e = Inr x"
  by (auto simp: cond_def split: sum.splits if_splits)

lemma rank_n_bounds:
  assumes "rank_n v p n b m = Inr c" and "0 \<le> p"
  shows "0 \<le> c \<and> c \<le> p"
proof (cases v)
  case None
  with assms show ?thesis by (simp add: rank_n_def)
next
  case (Some x)
  with assms(1) have "c = p * 1 \<or> c = p * 0.5 \<or> c = p * 0.3 \<or> c = 0"
    by (auto simp: rank_n_def split: if_splits dest!: cond_Inr_cases)
  with assms(2) show ?thesis by auto
qed

lemma full_or_half_bounds:
  assumes "full_or_half c p = Inr x" and "0 \<le> p"
  shows "0 \<le> x \<and> x \<le> p"
proof -
  from assms(1) have "x = p \<or> x = p * 0.5"
    by (auto simp: full_or_half_def dest!: cond_Inr_cases)
  with assms(2) show ?thesis by auto
qed

lemma full_half_zero_bounds:
  assumes "full_half_zero c1 c2 p = Inr x" and "0 \<le> p"
  shows "0 \<le> x \<and> x \<le> p"
proof -
  from assms(1) have "x = p \<or> x = p * 0.5 \<or> x = 0"
    by (auto simp: full_half_zero_def dest!: cond_Inr_cases)
  with assms(2) show ?thesis by auto
qed

lemma add_score_ok:
  assumes nonneg: "\<forall>k. 0 \<le> pesos_get pesos k"
  shows "step_ok pesos (add_score pesos key v u n b m)"
  unfolding step_ok_def
proof (intro allI impI)
  fix a a'
  assume ok: "acc_ok pesos a" and run: "add_score pesos key v u n b m a = Inr a'"
  let ?p = "pesos_get pesos key"
  show "acc_ok pesos a'"
  proof (cases "?p = 0 \<or> v = None")
    case True
    with run ok show ?thesis by (auto simp: add_score_def)
  next
    case False
    then obtain c where c: "(if u then rank_n v ?p n b m else Inr ?p) = Inr c"
      and a': "a' = record_contrib key c ?p a"
      using run by (auto simp: add_score_def Let_def split: sum.splits)
    from nonneg have "0 \<le> ?p" by simp
    with c have "0 \<le> c \<and> c \<le> ?p"
      by (cases u) (auto dest: rank_n_bounds)
    with ok a' show ?thesis by (simp add: record_contrib_ok)
  qed
qed

lemma inline_block_ok:
  assumes rule: "\<And>x p c. rule x p = Inr c \<Longrightarrow> 0 \<le> p \<Longrightarrow> 0 \<le> c \<and> c \<le> p"
  shows "step_ok pesos (inline_block pesos key v rule)"
  unfolding step_ok_def
proof (intro allI impI)
  fix a a'
  assume ok: "acc_ok pesos a" and run: "inline_block pesos key v rule a = Inr a'"
  let ?p = "pesos_get pesos key"
  show "acc_ok pesos a'"
  proof (cases "v \<noteq> None \<and> 0 < ?p")
    case False
    with run ok show ?thesis
      by (auto simp: inline_block_def Let_def split: option.splits if_splits)
  next
    case True
    then obtain x where x: "v = Some x" and pos: "0 < ?p" by auto
    with run obtain c where c: "rule x ?p = Inr c" and a': "a' = record_contrib key c ?p a"
      by (auto simp: inline_block_def Let_def split: sum.splits)
    from rule [OF c] pos have "0 \<le> c \<and> c \<le> ?p" by simp
    with ok a' show ?thesis by (simp add: record_contrib_ok)
  qed
qed

lemma inline_full_or_half_ok:
  "step_ok pesos (inline_block pesos key v (\<lambda>x. full_or_half (c x)))"
  by (rule inline_block_ok) (rule full_or_half_bounds)

lemma inline_full_half_zero_ok:
  "step_ok pesos (inline_block pesos key v (\<lambda>x. full_half_zero (c1 x) (c2 x)))"
  by (rule inline_block_ok) (rule full_half_zero_bounds)

lemmas steps_ok = add_score_ok inline_full_or_half_ok inline_full_half_zero_ok

lemma FQ_block_ok:
  "\<forall>k. 0 \<le> pesos_get pesos k \<Longrightarrow> \<forall>f \<in> set (FQ_block row pesos). step_ok pesos f"
  by (simp add: FQ_block_def steps_ok)

lemma MedChem_block_ok:
  "\<forall>k. 0 \<le> pesos_get pesos k \<Longrightarrow> \<forall>f \<in> set (MedChem_block row pesos). step_ok pesos f"
  by (simp add: MedChem_block_def steps_ok)

lemma Abs_block_ok:
  "\<forall>k. 0 \<le> pesos_get pesos k \<Longrightarrow> \<forall>f \<in> set (Abs_block row pesos). step_ok pesos f"
  by (simp add: Abs_block_def caco2_statements_def steps_ok)

lemma Dis_block_ok:
  "\<forall>k. 0 \<le> pesos_get pesos k \<Longrightarrow> \<forall>f \<in> set (Dis_block row pesos). step_ok pesos f"
  by (simp add: Dis_block_def steps_ok)

lemma Met_block_ok:
  "\<forall>k. 0 \<le> pesos_get pesos k \<Longrightarrow> \<forall>f \<in> set (Met_block row pesos). step_ok pesos f"
  by (simp add: Met_block_def steps_ok)

lemma Exc_block_ok:
  "\<forall>k. 0 \<le> pesos_get pesos k \<Longrightarrow> \<forall>f \<in> set (Exc_block row pesos). step_ok pesos f"
  by (simp add: Exc_block_def steps_ok)

lemma Tox_block_ok:
  "\<forall>k. 0 \<le> pesos_get pesos k \<Longrightarrow> \<forall>f \<in> set (Tox_block row pesos). step_ok pesos f"
  by (simp add: Tox_block_def ames_statements_def steps_ok)

lemma body_ok:
  assumes "\<forall>k. 0 \<le> pesos_get pesos k"
  shows "\<forall>f \<in> set (body row pesos cats). step_ok pesos f"
  using FQ_block_ok [OF assms] MedChem_block_ok [OF assms] Abs_block_ok [OF assms]
    Dis_block_ok [OF assms] Met_block_ok [OF assms] Exc_block_ok [OF assms]
    Tox_block_ok [OF assms]
  by (auto simp: body_def)

lemma run_steps_ok:
  "\<forall>f \<in> set fs. step_ok pesos f \<Longrightarrow> acc_ok pesos a \<Longrightarrow> run_steps fs a = Inr a' \<Longrightarrow>
   acc_ok pesos a'"
proof (induction fs arbitrary: a)
  case Nil
  then show ?case by simp
next
  case (Cons f fs)
  from Cons.prems(3) obtain b where b: "f a = Inr b" and rest: "run_steps fs b = Inr a'"
    by (auto split: sum.splits)
  from Cons.prems(1,2) b have "acc_ok pesos b" by (auto simp: step_ok_def)
  with Cons.IH [of b] Cons.prems(1) rest show ?case by simp
qed

lemma acc0_ok: "acc_ok pesos acc0"
  by (simp add: acc_ok_def acc0_def)

lemma DEFAULT_WEIGHTS_nonneg: "\<forall>(k, p) \<in> set DEFAULT_WEIGHTS. 0 \<le> p"
  by (simp add: DEFAULT_WEIGHTS_def)

lemma pesos_get_nonneg:
  assumes "\<forall>(k, p) \<in> set w. 0 \<le> p"
  shows "0 \<le> pesos_get w key"
proof (cases "map_of w key")
  case None
  then show ?thesis by (simp add: pesos_get_def)
next
  case (Some p)
  then have "(key, p) \<in> set w" by (rule map_of_SomeD)
  with assms Some show ?thesis by (auto simp: pesos_get_def)
qed

lemma pesos_or_default_nonneg:
  assumes "\<forall>w. pesos = Some w \<longrightarrow> (\<forall>(k, p) \<in> set w. 0 \<le> p)"
  shows "\<forall>k. 0 \<le> pesos_get (pesos_or_default pesos) k"
proof -
  have "\<forall>(k, p) \<in> set (pesos_or_default pesos). 0 \<le> p"
    using assms DEFAULT_WEIGHTS_nonneg
    by (cases pesos) (simp_all add: pesos_or_default_def)
  then show ?thesis by (simp add: pesos_get_nonneg)
qed

lemma round_half_even_bounds:
  assumes "of_int lo \<le> y" and "y \<le> of_int hi"
  shows "lo \<le> round_half_even y \<and> round_half_even y \<le> hi"
proof -
  let ?f = "\<lfloor>y\<rfloor>"
  have lo: "lo \<le> ?f" using assms(1) by (simp add: le_floor_iff)
  have hi: "?f \<le> hi" using assms(2) by (simp add: floor_le_iff)
  have up: "?f + 1 \<le> hi" if "y - of_int ?f \<ge> 1 / 2"
  proof -
    from that have "of_int ?f < y" by linarith
    with assms(2) have "(of_int ?f :: real) < of_int hi" by linarith
    then have "?f < hi" by simp
    then show ?thesis by simp
  qed
  show ?thesis
    using lo hi up by (auto simp: round_half_even_def Let_def)
qed

lemma py_round_unit:
  assumes "0 \<le> x" and "x \<le> 1"
  shows "0 \<le> py_round x 4 \<and> py_round x 4 \<le> 1"
proof -
  have "of_int 0 \<le> x * 10 ^ 4" using assms by simp
  moreover have "x * 10 ^ 4 \<le> of_int 10000" using assms by simp
  ultimately have "0 \<le> round_half_even (x * 10 ^ 4) \<and> round_half_even (x * 10 ^ 4) \<le> 10000"
    by (rule round_half_even_bounds)
  then have "0 \<le> (of_int (round_half_even (x * 10 ^ 4)) :: real) \<and>
      (of_int (round_half_even (x * 10 ^ 4)) :: real) \<le> 10000"
    by (metis of_int_0_le_iff of_int_le_iff of_int_numeral)
  then show ?thesis by (simp add: py_round_def)
qed

lemma norm_score_unit:
  assumes "0 \<le> score a" and "score a \<le> max_score a"
  shows "0 \<le> (if max_score a > 0 then py_round (score a / max_score a) 4 else 0) \<and>
    (if max_score a > 0 then py_round (score a / max_score a) 4 else 0) \<le> 1"
proof (cases "max_score a > 0")
  case True
  with assms have "0 \<le> score a / max_score a" and "score a / max_score a \<le> 1" by simp_all
  with True show ?thesis by (simp add: py_round_unit)
next
  case False
  then show ?thesis by simp
qed

text \<open>
  Claim C5. For every row and every weight table with non-negative weights (the default
  table when none is given), after any number of statements of the scorer the accumulators
  satisfy \<open>0 \<le> score \<le> max_score\<close>, and every contribution recorded lies between zero and the
  weight of its criterion; the normalized score returned lies in \<open>[0, 1]\<close>, whether the
  statements complete or raise.
\<close>

theorem score_within_bounds:
  assumes "\<forall>w. pesos = Some w \<longrightarrow> (\<forall>(k, p) \<in> set w. 0 \<le> p)"
  shows "(\<forall>n a. run_steps (take n (body r (pesos_or_default pesos) cats)) acc0 = Inr a \<longrightarrow>
            0 \<le> score a \<and> score a \<le> max_score a \<and>
            (\<forall>(k, c) \<in> set (breakdown a). 0 \<le> c \<and> c \<le> pesos_get (pesos_or_default pesos) k)) \<and>
         (\<exists>x. calcular_puntaje_admet (Series r) pesos False cats = Inr (Float x) \<and>
            0 \<le> x \<and> x \<le> 1) \<and>
         (calcular_puntaje_admet (Series r) pesos True cats = Inr (Float 0) \<or>
          (\<exists>s x b. calcular_puntaje_admet (Series r) pesos True cats = Inr (Tuple s x b) \<and>
            0 \<le> s \<and> 0 \<le> x \<and> x \<le> 1))"
proof -
  let ?w = "pesos_or_default pesos"
  have nonneg: "\<forall>k. 0 \<le> pesos_get ?w k"
    using assms by (rule pesos_or_default_nonneg)
  have steps: "\<forall>f \<in> set (body r ?w cats). step_ok ?w f"
    using nonneg by (rule body_ok)
  have prefix: "acc_ok ?w a" if "run_steps (take n (body r ?w cats)) acc0 = Inr a" for n a
  proof -
    have "\<forall>f \<in> set (take n (body r ?w cats)). step_ok ?w f"
      using steps by (auto dest: in_set_takeD)
    then show ?thesis using acc0_ok that by (rule run_steps_ok)
  qed
  have final: "acc_ok ?w a" if "run_steps (body r ?w cats) acc0 = Inr a" for a
    using steps acc0_ok that by (rule run_steps_ok)
  have throughout: "\<forall>n a. run_steps (take n (body r ?w cats)) acc0 = Inr a \<longrightarrow>
            0 \<le> score a \<and> score a \<le> max_score a \<and>
            (\<forall>(k, c) \<in> set (breakdown a). 0 \<le> c \<and> c \<le> pesos_get ?w k)"
    using prefix by (simp add: acc_ok_def)
  have result: "(\<exists>x. calcular_puntaje_admet (Series r) pesos False cats = Inr (Float x) \<and>
            0 \<le> x \<and> x \<le> 1) \<and>
         (calcular_puntaje_admet (Series r) pesos True cats = Inr (Float 0) \<or>
          (\<exists>s x b. calcular_puntaje_admet (Series r) pesos True cats = Inr (Tuple s x b) \<and>
            0 \<le> s \<and> 0 \<le> x \<and> x \<le> 1))"
  proof (cases "run_steps (body r ?w cats) acc0")
    case (Inl e)
    then show ?thesis by (simp add: calcular_Series_Inl)
  next
    case (Inr a)
    from final [OF Inr] have s: "0 \<le> score a" "score a \<le> max_score a"
      by (simp_all add: acc_ok_def)
    from norm_score_unit [OF s] s(1) show ?thesis
      by (simp add: calcular_Series_Inr [OF Inr])
  qed
  from throughout result show ?thesis by blast
qed

theorem score_within_bounds_witness:
  "(0 :: real) \<le> 2 \<and>
   (\<exists>x. calcular_puntaje_admet (Series [(''QED'', Num 0.5)]) (Some [(''qed'', 2)]) False
            all_categories = Inr (Float x) \<and> 0 \<le> x \<and> x \<le> 1) \<and>
   (calcular_puntaje_admet (Series [(''QED'', Num 0.5)]) (Some [(''qed'', 2)]) True
        all_categories = Inr (Float 0) \<or>
    (\<exists>s x b. calcular_puntaje_admet (Series [(''QED'', Num 0.5)]) (Some [(''qed'', 2)]) True
        all_categories = Inr (Tuple s x b) \<and> 0 \<le> s \<and> 0 \<le> x \<and> x \<le> 1))"
proof -
  have h: "\<forall>w. Some [(''qed'', 2 :: real)] = Some w \<longrightarrow> (\<forall>(k, p) \<in> set w. 0 \<le> p)"
    by simp
  have "(0 :: real) \<le> 2" by simp
  with score_within_bounds [OF h, of "[(''QED'', Num 0.5)]" all_categories]
  show ?thesis by blast
qed

subsection \<open>Consensus: the inner join\<close>

lemma in_merge_inner:
  "(n, ss') \<in> set (merge_inner left right) \<longleftrightarrow>
     (\<exists>ss s. ss' = ss @ [s] \<and> (n, ss) \<in> set left \<and> (n, s) \<in> set right)"
  by (force simp: merge_inner_def)

lemma names_merge_inner:
  "fst ` set (merge_inner left right) = fst ` set left \<inter> fst ` set right"
proof (rule set_eqI)
  fix n
  have "n \<in> fst ` set (merge_inner left right) \<longleftrightarrow>
      (\<exists>ss'. (n, ss') \<in> set (merge_inner left right))"
    by force
  also have "\<dots> \<longleftrightarrow> (\<exists>ss. (n, ss) \<in> set left) \<and> (\<exists>s. (n, s) \<in> set right)"
    by (auto simp: in_merge_inner)
  also have "\<dots> \<longleftrightarrow> n \<in> fst ` set left \<inter> fst ` set right"
    by force
  finally show "n \<in> fst ` set (merge_inner left right) \<longleftrightarrow>
      n \<in> fst ` set left \<inter> fst ` set right" .
qed

lemma names_foldl_merge:
  "fst ` set (foldl merge_inner m ds) = fst ` set m \<inter> (\<Inter>d \<in> set ds. fst ` set d)"
  by (induction ds arbitrary: m) (auto simp: names_merge_inner)

lemma names_first_table: "fst ` set (first_table df) = fst ` set df"
  by (force simp: first_table_def)

lemma in_first_table: "(n, ss) \<in> set (first_table df) \<longleftrightarrow> (\<exists>s. ss = [s] \<and> (n, s) \<in> set df)"
  by (auto simp: first_table_def)

lemma rows_foldl_merge:
  "(n, ss) \<in> set (foldl merge_inner (first_table df0) ds) \<Longrightarrow>
     length ss = Suc (length ds) \<and> (\<forall>i < Suc (length ds). (n, ss ! i) \<in> set ((df0 # ds) ! i))"
proof (induction ds arbitrary: ss rule: rev_induct)
  case Nil
  then show ?case by (auto simp: in_first_table)
next
  case (snoc d ds)
  from snoc.prems obtain ss0 s where ss: "ss = ss0 @ [s]"
    and left: "(n, ss0) \<in> set (foldl merge_inner (first_table df0) ds)"
    and right: "(n, s) \<in> set d"
    by (auto simp: in_merge_inner)
  from snoc.IH [OF left] have len: "length ss0 = Suc (length ds)"
    and old: "\<forall>i < Suc (length ds). (n, ss0 ! i) \<in> set ((df0 # ds) ! i)"
    by simp_all
  have "(n, ss ! i) \<in> set ((df0 # ds @ [d]) ! i)" if "i < Suc (length (ds @ [d]))" for i
  proof (cases "i < Suc (length ds)")
    case True
    with old len ss show ?thesis
      by (cases i) (auto simp: nth_append)
  next
    case False
    with that have i: "i = Suc (length ds)" by simp
    with len ss right show ?thesis by (simp add: nth_append)
  qed
  with len ss show ?case by simp
qed

subsection \<open>Consensus: dense ranks\<close>

lemma rank_dense_desc_card:
  "rank_dense_desc col x = int (card {y \<in> set col. y > x}) + 1"
proof -
  have "length (filter (\<lambda>y. y > x) (remdups col)) = card ({y. y > x} \<inter> set (remdups col))"
    by (rule distinct_length_filter) simp
  also have "{y. y > x} \<inter> set (remdups col) = {y \<in> set col. y > x}" by auto
  finally show ?thesis by (simp add: rank_dense_desc_def)
qed

lemma rank_dense_desc_strict:
  assumes "y \<in> set col" and "x < y"
  shows "rank_dense_desc col y < rank_dense_desc col x"
proof -
  have "{z \<in> set col. z > y} \<subset> {z \<in> set col. z > x}"
    using assms by auto
  then have "card {z \<in> set col. z > y} < card {z \<in> set col. z > x}"
    by (intro psubset_card_mono) simp_all
  then show ?thesis by (simp add: rank_dense_desc_card)
qed

lemma rank_dense_desc_next:
  assumes "y \<in> set col" and "x < y" and "\<forall>z \<in> set col. \<not> (x < z \<and> z < y)"
  shows "rank_dense_desc col x = rank_dense_desc col y + 1"
proof -
  have "{z \<in> set col. z > x} = insert y {z \<in> set col. z > y}"
    using assms by (auto simp: not_less)
  moreover have "y \<notin> {z \<in> set col. z > y}" by simp
  ultimately have "card {z \<in> set col. z > x} = Suc (card {z \<in> set col. z > y})"
    by simp
  then show ?thesis by (simp add: rank_dense_desc_card)
qed

lemma rank_dense_desc_best:
  assumes "\<forall>z \<in> set col. z \<le> x"
  shows "rank_dense_desc col x = 1"
proof -
  have "{z \<in> set col. z > x} = {}" using assms by (auto simp: not_less)
  then show ?thesis by (simp add: rank_dense_desc_card)
qed


lemma consensus_score_Cons:
  "consensus_score (df0 # rest) =
     Inr (sort_key admet_rank_consensus
       (map (\<lambda>(n, ss). \<lparr>name = n, scores = ss, admet_score_consensus = mean ss,
               admet_rank_consensus =
                 rank_dense_desc
                   (map (\<lambda>(n, ss). mean ss) (foldl merge_inner (first_table df0) rest))
                   (mean ss)\<rparr>)
          (foldl merge_inner (first_table df0) rest)))"
  by (simp add: consensus_score_def Let_def)

lemma consensus_score_row:
  assumes "consensus_score (df0 # rest) = Inr out" and "r \<in> set out"
  shows "(name r, scores r) \<in> set (foldl merge_inner (first_table df0) rest) \<and>
    admet_score_consensus r = mean (scores r) \<and>
    admet_score_consensus r \<in> set (map (\<lambda>(n, ss). mean ss) (foldl merge_inner (first_table df0) rest)) \<and>
    admet_rank_consensus r =
      rank_dense_desc (map (\<lambda>(n, ss). mean ss) (foldl merge_inner (first_table df0) rest))
        (admet_score_consensus r)"
  using assms by (force simp: consensus_score_Cons)

lemma consensus_score_column:
  assumes "consensus_score (df0 # rest) = Inr out"
  shows "set (map (\<lambda>(n, ss). mean ss) (foldl merge_inner (first_table df0) rest)) =
    admet_score_consensus ` set out"
  using assms by (force simp: consensus_score_Cons)

lemma consensus_score_names:
  assumes "consensus_score (df0 # rest) = Inr out"
  shows "name ` set out = fst ` set (foldl merge_inner (first_table df0) rest)"
  using assms by (force simp: consensus_score_Cons)

lemma consensus_score_sorted:
  assumes "consensus_score (df0 # rest) = Inr out"
  shows "sorted (map admet_rank_consensus out)"
  using assms by (auto simp: consensus_score_Cons)

text \<open>
  Claim C8. For a non-empty sequence of per-source tables the consensus is computed, and a
  name occurs in its output if and only if it occurs in every one of the tables.
\<close>

theorem consensus_inner_join:
  assumes "dfs \<noteq> []"
  shows "\<exists>out. consensus_score dfs = Inr out \<and>
    (\<forall>n. n \<in> name ` set out \<longleftrightarrow> (\<forall>df \<in> set dfs. n \<in> fst ` set df))"
proof -
  from assms obtain df0 rest where dfs: "dfs = df0 # rest" by (cases dfs) auto
  obtain out where out: "consensus_score (df0 # rest) = Inr out"
    by (simp add: consensus_score_Cons)
  have "name ` set out = fst ` set df0 \<inter> (\<Inter>d \<in> set rest. fst ` set d)"
    by (simp add: consensus_score_names [OF out] names_foldl_merge names_first_table)
  then have "\<forall>n. n \<in> name ` set out \<longleftrightarrow> (\<forall>df \<in> set (df0 # rest). n \<in> fst ` set df)"
    by simp
  with out dfs show ?thesis by blast
qed

theorem consensus_inner_join_witness:
  "[[(''A'', 1), (''B'', 0.5), (''C'', 0.2)], [(''A'', 1), (''C'', 0.3)], [(''A'', 1), (''B'', 0.5)]]
     \<noteq> ([] :: score_table list) \<and>
   (\<exists>out. consensus_score
       [[(''A'', 1), (''B'', 0.5), (''C'', 0.2)], [(''A'', 1), (''C'', 0.3)],
        [(''A'', 1), (''B'', 0.5)]] = Inr out \<and>
     ''A'' \<in> name ` set out \<and> ''B'' \<notin> name ` set out \<and> ''C'' \<notin> name ` set out)"
proof -
  let ?dfs = "[[(''A'', 1), (''B'', 0.5), (''C'', 0.2)], [(''A'', 1), (''C'', 0.3)],
        [(''A'', 1), (''B'', 0.5)]] :: score_table list"
  have ne: "?dfs \<noteq> []" by simp
  from consensus_inner_join [OF ne] obtain out where out: "consensus_score ?dfs = Inr out"
    and iff: "\<And>n. n \<in> name ` set out \<longleftrightarrow> (\<forall>df \<in> set ?dfs. n \<in> fst ` set df)"
    by blast
  have "''A'' \<in> name ` set out" by (subst iff) simp
  moreover have "''B'' \<notin> name ` set out" by (subst iff) simp
  moreover have "''C'' \<notin> name ` set out" by (subst iff) simp
  ultimately show ?thesis using ne out by blast
qed

text \<open>
  Claim C9. For a non-empty sequence of tables, every output row holds one score of its
  compound from each source, in the order of the sources, and its consensus score is their
  arithmetic mean. The consensus rank is the dense rank in descending order: equal scores
  share a rank, a greater score has a smaller rank, a score with no other score strictly
  between it and a greater one has the rank of the greater one plus one, and the greatest
  score has rank 1. The output is sorted by ascending rank.
\<close>

theorem consensus_mean_dense_rank_sorted:
  assumes "dfs \<noteq> []"
  shows "\<exists>out. consensus_score dfs = Inr out \<and>
    (\<forall>r \<in> set out.
       length (scores r) = length dfs \<and>
       (\<forall>i < length dfs. (name r, scores r ! i) \<in> set (dfs ! i)) \<and>
       admet_score_consensus r = sum_list (scores r) / real (length dfs)) \<and>
    (\<forall>r \<in> set out. \<forall>r' \<in> set out.
       (admet_score_consensus r = admet_score_consensus r' \<longrightarrow>
          admet_rank_consensus r = admet_rank_consensus r') \<and>
       (admet_score_consensus r' < admet_score_consensus r \<longrightarrow>
          admet_rank_consensus r < admet_rank_consensus r') \<and>
       (admet_score_consensus r' < admet_score_consensus r \<and>
        (\<forall>r'' \<in> set out. \<not> (admet_score_consensus r' < admet_score_consensus r'' \<and>
             admet_score_consensus r'' < admet_score_consensus r)) \<longrightarrow>
          admet_rank_consensus r' = admet_rank_consensus r + 1)) \<and>
    (\<forall>r \<in> set out. (\<forall>r' \<in> set out. admet_score_consensus r' \<le> admet_score_consensus r) \<longrightarrow>
       admet_rank_consensus r = 1) \<and>
    sorted (map admet_rank_consensus out)"
proof -
  from assms obtain df0 rest where dfs: "dfs = df0 # rest" by (cases dfs) auto
  obtain out where out: "consensus_score (df0 # rest) = Inr out"
    by (simp add: consensus_score_Cons)
  let ?M = "foldl merge_inner (first_table df0) rest"
  let ?col = "map (\<lambda>(n, ss). mean ss) ?M"
  note row = consensus_score_row [OF out]
  have col: "set ?col = admet_score_consensus ` set out"
    by (rule consensus_score_column [OF out])
  have means: "\<forall>r \<in> set out.
       length (scores r) = length dfs \<and>
       (\<forall>i < length dfs. (name r, scores r ! i) \<in> set (dfs ! i)) \<and>
       admet_score_consensus r = sum_list (scores r) / real (length dfs)"
  proof
    fix r assume r: "r \<in> set out"
    from row [OF r] have m: "(name r, scores r) \<in> set ?M"
      and c: "admet_score_consensus r = mean (scores r)" by blast+
    from rows_foldl_merge [OF m] dfs c
    show "length (scores r) = length dfs \<and>
       (\<forall>i < length dfs. (name r, scores r ! i) \<in> set (dfs ! i)) \<and>
       admet_score_consensus r = sum_list (scores r) / real (length dfs)"
      by (simp add: mean_def)
  qed
  have ranks: "\<forall>r \<in> set out. \<forall>r' \<in> set out.
       (admet_score_consensus r = admet_score_consensus r' \<longrightarrow>
          admet_rank_consensus r = admet_rank_consensus r') \<and>
       (admet_score_consensus r' < admet_score_consensus r \<longrightarrow>
          admet_rank_consensus r < admet_rank_consensus r') \<and>
       (admet_score_consensus r' < admet_score_consensus r \<and>
        (\<forall>r'' \<in> set out. \<not> (admet_score_consensus r' < admet_score_consensus r'' \<and>
             admet_score_consensus r'' < admet_score_consensus r)) \<longrightarrow>
          admet_rank_consensus r' = admet_rank_consensus r + 1)"
  proof (intro ballI conjI impI)
    fix r r' assume r: "r \<in> set out" and r': "r' \<in> set out"
    from row [OF r] have rk: "admet_rank_consensus r = rank_dense_desc ?col (admet_score_consensus r)"
      and rin: "admet_score_consensus r \<in> set ?col" by blast+
    from row [OF r'] have rk': "admet_rank_consensus r' = rank_dense_desc ?col (admet_score_consensus r')"
      by blast
    {
      assume "admet_score_consensus r = admet_score_consensus r'"
      with rk rk' show "admet_rank_consensus r = admet_rank_consensus r'" by simp
    next
      assume "admet_score_consensus r' < admet_score_consensus r"
      from rank_dense_desc_strict [OF rin this] rk rk'
      show "admet_rank_consensus r < admet_rank_consensus r'" by simp
    next
      assume a: "admet_score_consensus r' < admet_score_consensus r \<and>
        (\<forall>r'' \<in> set out. \<not> (admet_score_consensus r' < admet_score_consensus r'' \<and>
             admet_score_consensus r'' < admet_score_consensus r))"
      then have lt: "admet_score_consensus r' < admet_score_consensus r" by simp
      from a col have gap: "\<forall>z \<in> set ?col. \<not> (admet_score_consensus r' < z \<and>
          z < admet_score_consensus r)"
        by auto
      from rank_dense_desc_next [OF rin lt gap] rk rk'
      show "admet_rank_consensus r' = admet_rank_consensus r + 1" by simp
    }
  qed
  have best: "\<forall>r \<in> set out. (\<forall>r' \<in> set out. admet_score_consensus r' \<le> admet_score_consensus r) \<longrightarrow>
       admet_rank_consensus r = 1"
  proof (intro ballI impI)
    fix r assume r: "r \<in> set out"
      and top: "\<forall>r' \<in> set out. admet_score_consensus r' \<le> admet_score_consensus r"
    from top col have "\<forall>z \<in> set ?col. z \<le> admet_score_consensus r" by auto
    from rank_dense_desc_best [OF this] row [OF r]
    show "admet_rank_consensus r = 1" by metis
  qed
  from out dfs means ranks best consensus_score_sorted [OF out] show ?thesis by blast
qed

lemma consensus_example:
  "consensus_score [[(''A'', 1), (''B'', 0.5), (''C'', 1)], [(''A'', 1), (''B'', 0.5), (''C'', 1)]] =
     Inr [\<lparr>name = ''A'', scores = [1, 1], admet_score_consensus = 1, admet_rank_consensus = 1\<rparr>,
          \<lparr>name = ''C'', scores = [1, 1], admet_score_consensus = 1, admet_rank_consensus = 1\<rparr>,
          \<lparr>name = ''B'', scores = [0.5, 0.5], admet_score_consensus = 0.5,
            admet_rank_consensus = 2\<rparr>]"
  by (simp add: consensus_score_def first_table_def merge_inner_def mean_def
      rank_dense_desc_def Let_def)

theorem consensus_mean_dense_rank_sorted_witness:
  "[[(''A'', 1), (''B'', 0.5), (''C'', 1)], [(''A'', 1), (''B'', 0.5), (''C'', 1)]]
     \<noteq> ([] :: score_table list) \<and>
   (\<exists>out. consensus_score
        [[(''A'', 1), (''B'', 0.5), (''C'', 1)], [(''A'', 1), (''B'', 0.5), (''C'', 1)]] = Inr out \<and>
      map name out = [''A'', ''C'', ''B''] \<and>
      map admet_score_consensus out = [1, 1, 0.5] \<and>
      map admet_rank_consensus out = [1, 1, 2] \<and>
      sorted (map admet_rank_consensus out) \<and>
      (\<forall>r \<in> set out. admet_score_consensus r = sum_list (scores r) / 2))"
proof -
  let ?dfs = "[[(''A'', 1), (''B'', 0.5), (''C'', 1)], [(''A'', 1), (''B'', 0.5), (''C'', 1)]]
     :: score_table list"
  have ne: "?dfs \<noteq> []" by simp
  from consensus_mean_dense_rank_sorted [OF ne] obtain out
    where out: "consensus_score ?dfs = Inr out"
      and means: "\<forall>r \<in> set out. admet_score_consensus r = sum_list (scores r) / real (length ?dfs)"
      and sorted: "sorted (map admet_rank_consensus out)"
    by blast
  from out have eq: "out = [\<lparr>name = ''A'', scores = [1, 1], admet_score_consensus = 1, admet_rank_consensus = 1\<rparr>,
          \<lparr>name = ''C'', scores = [1, 1], admet_score_consensus = 1, admet_rank_consensus = 1\<rparr>,
          \<lparr>name = ''B'', scores = [0.5, 0.5], admet_score_consensus = 0.5,
            admet_rank_consensus = 2\<rparr>]"
    by (simp only: consensus_example sum.inject)
  have "map name out = [''A'', ''C'', ''B''] \<and>
      map admet_score_consensus out = [1, 1, 0.5] \<and>
      map admet_rank_consensus out = [1, 1, 2]"
    by (simp add: eq)
  moreover from means have "\<forall>r \<in> set out. admet_score_consensus r = sum_list (scores r) / 2"
    by simp
  ultimately show ?thesis using ne out sorted
    by (intro conjI exI [of _ out]) simp_all
qed

end
